theory Spec2Isabelle
  imports
    Complex_Main
    "HOL-Library.Char_ord"
    "HOL-Library.List_Lexorder"
    "HOL-Library.Product_Lexorder"
begin

section \<open>Data model\<close>

text \<open>
  Asset ids are Python strings, compared code point by code point; with
  \<open>Char_ord\<close> and \<open>List_Lexorder\<close> the order on \<open>string\<close> is that order.
  A pandas timestamp normalised to midnight is a calendar day (year, month, day);
  with \<open>Product_Lexorder\<close> the order on triples is the chronological order.
  A monthly period (\<open>dt.to_period('M')\<close>) is the pair (year, month).
  \<open>None\<close> in a date column is pandas' NaT, \<open>None\<close> in a numeric column is NaN.
  Market capitalisations are rationals: floating-point rounding is not modelled.
\<close>

type_synonym coin_id = string
type_synonym day = "int \<times> int \<times> int"
type_synonym period = "int \<times> int"

record observation =
  date :: "day option"
  coin_id :: coin_id

record mcap_row = observation +
  market_cap :: "rat option"

definition START_DATE :: day where
  "START_DATE = (2022, 1, 1)"

definition UNIVERSE_SIZE :: nat where
  "UNIVERSE_SIZE = 200"

fun to_period_M :: "day \<Rightarrow> period" where
  "to_period_M (y, m, d) = (y, m)"

section \<open>Universe construction (create\_universe.py, step 6)\<close>

text \<open>
  Lines 105-110: the concatenated histories are restricted to \<open>date >= START_DATE\<close>
  (a comparison with NaT is false), rows with a missing market cap are dropped, and the
  month column is added. A surviving row is kept as (month, coin id, market cap).
\<close>

definition master_row :: "mcap_row \<Rightarrow> (period \<times> coin_id \<times> rat) option" where
  "master_row r =
     (case date r of
        None \<Rightarrow> None
      | Some d \<Rightarrow>
          if START_DATE \<le> d
          then (case market_cap r of
                  None \<Rightarrow> None
                | Some v \<Rightarrow> Some (to_period_M d, coin_id r, v))
          else None)"

definition master_df :: "mcap_row list \<Rightarrow> (period \<times> coin_id \<times> rat) list" where
  "master_df all_histories = List.map_filter master_row all_histories"

definition mean :: "rat list \<Rightarrow> rat" where
  "mean vs = sum_list vs / of_nat (length vs)"

text \<open>
  \<open>groupby(keys)[col].mean().reset_index()\<close>: one row per distinct key, the keys in
  ascending order (pandas sorts group keys), the value the mean of the group's rows.
\<close>

definition groupby_mean :: "('k::linorder \<times> rat) list \<Rightarrow> ('k \<times> rat) list" where
  "groupby_mean kvs =
     map (\<lambda>k. (k, mean (map snd (filter (\<lambda>kv. fst kv = k) kvs))))
       (sort (remdups (map fst kvs)))"

text \<open>Line 111: the monthly average market cap per (month, coin id).\<close>

definition monthly_avg_mcap :: "mcap_row list \<Rightarrow> ((period \<times> coin_id) \<times> rat) list" where
  "monthly_avg_mcap all_histories =
     groupby_mean (map (\<lambda>(m, c, v). ((m, c), v)) (master_df all_histories))"

text \<open>
  Line 114: \<open>groupby('month')['market_cap'].rank(method='first', ascending=False)\<close>.
  The rank of a row within its month is one more than the number of rows of the month
  with a strictly greater value, plus the number of rows of the month with the same
  value that stand before it in the frame.
\<close>

definition rank_first :: "((period \<times> 'c) \<times> rat) list \<Rightarrow> ((period \<times> 'c) \<times> rat) list \<Rightarrow>
    ((period \<times> 'c) \<times> rat) \<Rightarrow> nat" where
  "rank_first df seen r =
     1 + length (filter (\<lambda>x. fst (fst x) = fst (fst r) \<and> snd r < snd x) df)
       + length (filter (\<lambda>x. fst (fst x) = fst (fst r) \<and> snd x = snd r) seen)"

fun rank_rows :: "((period \<times> 'c) \<times> rat) list \<Rightarrow> ((period \<times> 'c) \<times> rat) list \<Rightarrow>
    ((period \<times> 'c) \<times> rat) list \<Rightarrow> (((period \<times> 'c) \<times> rat) \<times> nat) list" where
  "rank_rows df seen [] = []"
| "rank_rows df seen (r # rs) = (r, rank_first df seen r) # rank_rows df (seen @ [r]) rs"

definition ranked :: "mcap_row list \<Rightarrow> (((period \<times> coin_id) \<times> rat) \<times> nat) list" where
  "ranked all_histories =
     (let df = monthly_avg_mcap all_histories in rank_rows df [] df)"

text \<open>Line 117: the rows of rank at most the universe size.\<close>

definition top_n_df :: "nat \<Rightarrow> mcap_row list \<Rightarrow> (((period \<times> coin_id) \<times> rat) \<times> nat) list" where
  "top_n_df n all_histories = filter (\<lambda>x. snd x \<le> n) (ranked all_histories)"

text \<open>
  Lines 120-125: one entry per month of the top-n frame, months ascending, the value the
  coin ids of the month's rows in frame order. The key \<open>'YYYY-MM-01'\<close> is kept as the
  period it prints.
\<close>

definition point_in_time_universe :: "nat \<Rightarrow> mcap_row list \<Rightarrow> (period \<times> coin_id list) list" where
  "point_in_time_universe n all_histories =
     (let top = top_n_df n all_histories in
      map (\<lambda>m. (m, map (\<lambda>x. snd (fst (fst x))) (filter (\<lambda>x. fst (fst (fst x)) = m) top)))
        (sort (remdups (map (\<lambda>x. fst (fst (fst x))) top))))"

text \<open>The universe the script writes: the one of size \<open>UNIVERSE_SIZE\<close>.\<close>

definition universe_cache :: "mcap_row list \<Rightarrow> (period \<times> coin_id list) list" where
  "universe_cache all_histories = point_in_time_universe UNIVERSE_SIZE all_histories"

text \<open>The list of one period in a universe of size \<open>n\<close>, if the universe has the period.\<close>

definition snapshot :: "nat \<Rightarrow> mcap_row list \<Rightarrow> period \<Rightarrow> coin_id list option" where
  "snapshot n all_histories p = map_of (point_in_time_universe n all_histories) p"

text \<open>A row is dated within or before period \<open>p\<close>; a row without a date is not.\<close>

definition dated_up_to :: "period \<Rightarrow> mcap_row \<Rightarrow> bool" where
  "dated_up_to p r = (case date r of None \<Rightarrow> False | Some d \<Rightarrow> to_period_M d \<le> p)"

text \<open>The monthly averages computed from the rows of one month alone.\<close>

definition month_frame :: "period \<Rightarrow> mcap_row list \<Rightarrow> ((period \<times> coin_id) \<times> rat) list" where
  "month_frame p all_histories =
     groupby_mean (map (\<lambda>(m, c, v). ((m, c), v))
       (filter (\<lambda>x. fst x = p) (master_df all_histories)))"

section \<open>Dataset assembly (main\_pipeline.py, stage 2 and step 8)\<close>

text \<open>
  A row of a per-asset history has a date, a coin id and further columns; the further
  columns are kept as one value of any type.
\<close>

record 'a history_row = observation +
  others :: 'a

record 'a panel_row = "'a history_row" +
  canonical_id :: coin_id

definition on_or_before :: "day \<Rightarrow> 'a observation_scheme \<Rightarrow> bool" where
  "on_or_before d r = (case date r of None \<Rightarrow> False | Some x \<Rightarrow> x \<le> d)"

definition on_or_after :: "day \<Rightarrow> 'a observation_scheme \<Rightarrow> bool" where
  "on_or_after d r = (case date r of None \<Rightarrow> False | Some x \<Rightarrow> d \<le> x)"

text \<open>
  Lines 507-516: for every period of the universe, in file order, and every coin of the
  period that has a history, the slice of the history dated on or before the period.
  A slice is appended even when it has no rows.
\<close>

definition all_period_data ::
    "(day \<times> coin_id list) list \<Rightarrow> (coin_id \<rightharpoonup> 'a history_row list) \<Rightarrow> 'a history_row list list" where
  "all_period_data universe full_history_cache =
     concat (map (\<lambda>(period_date, coin_list).
         List.map_filter
           (\<lambda>c. map_option (filter (on_or_before period_date)) (full_history_cache c))
           coin_list)
       universe)"

text \<open>\<open>drop_duplicates(subset=..., keep='last')\<close>: a row is dropped when a later row has its key.\<close>

fun drop_duplicates_last :: "('r \<Rightarrow> 'k) \<Rightarrow> 'r list \<Rightarrow> 'r list" where
  "drop_duplicates_last key [] = []"
| "drop_duplicates_last key (r # rs) =
     (if key r \<in> set (map key rs) then drop_duplicates_last key rs
      else r # drop_duplicates_last key rs)"

definition canonical_map :: "(coin_id \<times> coin_id) list" where
  "canonical_map =
     [(''binance-peg-weth'', ''weth''),
      (''wrapped-steth'', ''staked-ether''),
      (''wrapped-bitcoin'', ''bitcoin'')]"

text \<open>Line 529: \<open>coin_id.map(canonical_map).fillna(coin_id)\<close>.\<close>

definition with_canonical_id :: "'a history_row \<Rightarrow> 'a panel_row" where
  "with_canonical_id r =
     \<lparr>date = date r, coin_id = coin_id r, others = others r,
      canonical_id = (case map_of canonical_map (coin_id r) of None \<Rightarrow> coin_id r | Some c \<Rightarrow> c)\<rparr>"

text \<open>The sort key of line 531; pandas puts a missing date last.\<close>

definition panel_sort_key :: "'a panel_row \<Rightarrow> coin_id \<times> bool \<times> day" where
  "panel_sort_key r =
     (canonical_id r, case date r of None \<Rightarrow> (True, (0, 0, 0)) | Some d \<Rightarrow> (False, d))"

text \<open>Lines 522-532: the frame that is written.\<close>

definition final_master_df :: "'a history_row list list \<Rightarrow> 'a panel_row list" where
  "final_master_df period_data =
     (let master_df1 = concat period_data;
          master_df2 = filter (on_or_after START_DATE) master_df1;
          master_df3 = drop_duplicates_last (\<lambda>r. (coin_id r, date r)) master_df2;
          master_df4 = map with_canonical_id master_df3;
          master_df5 = drop_duplicates_last (\<lambda>r. (canonical_id r, date r)) master_df4
      in sort_key panel_sort_key master_df5)"

text \<open>
  Lines 521-542: the outcome of the run. \<open>Saved rows\<close>: the frame was written to the
  output file and the run reported completion. \<open>Process_Failed\<close>: the run reported
  failure and wrote nothing.
\<close>

datatype 'r run_outcome = Saved "'r list" | Process_Failed

definition combine_and_save :: "'a history_row list list \<Rightarrow> 'a panel_row run_outcome" where
  "combine_and_save period_data =
     (if period_data \<noteq> [] then Saved (final_master_df period_data) else Process_Failed)"

definition assemble ::
    "(day \<times> coin_id list) list \<Rightarrow> (coin_id \<rightharpoonup> 'a history_row list) \<Rightarrow> 'a panel_row run_outcome" where
  "assemble universe full_history_cache =
     combine_and_save (all_period_data universe full_history_cache)"

section \<open>The two-level cache (GCSCachingManager)\<close>

subsection \<open>Payloads and what the file formats make of them\<close>

text \<open>
  A payload is a DataFrame or any other value. A file is kept as what its reader returns
  for it: a parquet file as the frame \<open>read_parquet\<close> returns, a JSON file as the value
  \<open>json.load\<close> returns; a file of one format is unreadable by the reader of the other
  (the reader raises), and a file whose write broke off is unreadable by both.

  The writers and readers are library code. A codec says, for a frame and for a value,
  what the reader returns for the file the writer writes for it, and \<open>None\<close> when the
  writer raises. A format reproduces a payload when that is the payload itself.
\<close>

datatype ('df, 'js) payload = DataFrame 'df | Json 'js

datatype ('df, 'js) stored_file = Parquet_File 'df | Json_File 'js | Truncated_File

record ('df, 'js) codec =
  parquet :: "'df \<Rightarrow> 'df option"
  json :: "'js \<Rightarrow> 'js option"

text \<open>Lines 89-93: the format follows the kind of the payload.\<close>

definition serialize :: "('df, 'js) codec \<Rightarrow> ('df, 'js) payload \<Rightarrow> ('df, 'js) stored_file option" where
  "serialize cd data =
     (case data of
        DataFrame df \<Rightarrow> map_option Parquet_File (parquet cd df)
      | Json j \<Rightarrow> map_option Json_File (json cd j))"

text \<open>What a reader of the fitting format returns for the file written for a payload.\<close>

definition read_back :: "('df, 'js) codec \<Rightarrow> ('df, 'js) payload \<Rightarrow> ('df, 'js) payload option" where
  "read_back cd data =
     (case data of
        DataFrame df \<Rightarrow> map_option DataFrame (parquet cd df)
      | Json j \<Rightarrow> map_option Json (json cd j))"

subsection \<open>The JSON format of Python\<close>

text \<open>
  Python values as far as the JSON encoder tells them apart, floats left out. A dict is
  the list of its items in insertion order. \<open>PObject\<close> is any value the encoder
  refuses (a set, a DataFrame inside a list), \<open>KOther\<close> any key it refuses (a tuple).
\<close>

datatype pykey = KStr string | KInt int | KBool bool | KNone | KOther

datatype pyval =
    PNone
  | PBool bool
  | PInt int
  | PStr string
  | PList "pyval list"
  | PTuple "pyval list"
  | PDict "(pykey \<times> pyval) list"
  | PObject

datatype json_doc =
    JNull
  | JBool bool
  | JInt int
  | JStr string
  | JArray "json_doc list"
  | JObject "(string \<times> json_doc) list"

text \<open>\<open>str\<close> of an integer.\<close>

definition digit :: "nat \<Rightarrow> char" where
  "digit n = char_of (48 + n)"

text \<open>The digits of \<open>n\<close>, at most \<open>fuel\<close> of them; \<open>n\<close> has at most \<open>n + 1\<close> digits.\<close>

fun digits :: "nat \<Rightarrow> nat \<Rightarrow> string" where
  "digits 0 n = []"
| "digits (Suc fuel) n =
     (if n < 10 then [digit n] else digits fuel (n div 10) @ [digit (n mod 10)])"

definition decimal :: "nat \<Rightarrow> string" where
  "decimal n = digits (Suc n) n"

definition str_int :: "int \<Rightarrow> string" where
  "str_int i = (if i < 0 then CHR ''-'' # decimal (nat (- i)) else decimal (nat i))"

text \<open>
  The key of a JSON object: a string as it is, an integer as its digits, a boolean and
  \<open>None\<close> as \<open>true\<close>, \<open>false\<close> and \<open>null\<close>; any other key raises TypeError.
\<close>

fun key_str :: "pykey \<Rightarrow> string option" where
  "key_str (KStr s) = Some s"
| "key_str (KInt i) = Some (str_int i)"
| "key_str (KBool b) = Some (if b then ''true'' else ''false'')"
| "key_str KNone = Some ''null''"
| "key_str KOther = None"

definition json_item :: "pykey \<times> json_doc option \<Rightarrow> (string \<times> json_doc) option" where
  "json_item kv =
     (case key_str (fst kv) of
        None \<Rightarrow> None
      | Some s \<Rightarrow> (case snd kv of None \<Rightarrow> None | Some j \<Rightarrow> Some (s, j)))"

text \<open>
  \<open>json.dump\<close>: lists and tuples both become arrays, a dict becomes an object;
  \<open>None\<close> when the encoder raises TypeError.
\<close>

primrec json_dump :: "pyval \<Rightarrow> json_doc option" where
  "json_dump PNone = Some JNull"
| "json_dump (PBool b) = Some (JBool b)"
| "json_dump (PInt i) = Some (JInt i)"
| "json_dump (PStr s) = Some (JStr s)"
| "json_dump (PList xs) = map_option JArray (those (map json_dump xs))"
| "json_dump (PTuple xs) = map_option JArray (those (map json_dump xs))"
| "json_dump (PDict kvs) =
     map_option JObject (those (map json_item (map (map_prod id json_dump) kvs)))"
| "json_dump PObject = None"

text \<open>\<open>d[k] = v\<close> on a dict, and the dict of a list of items: a later item of a key
  replaces the value of the earlier one in its place.\<close>

fun dict_set :: "('k \<times> 'v) list \<Rightarrow> 'k \<Rightarrow> 'v \<Rightarrow> ('k \<times> 'v) list" where
  "dict_set [] k v = [(k, v)]"
| "dict_set ((k', v') # d) k v =
     (if k' = k then (k', v) # d else (k', v') # dict_set d k v)"

definition dict_of_items :: "('k \<times> 'v) list \<Rightarrow> ('k \<times> 'v) list" where
  "dict_of_items items = foldl (\<lambda>d kv. dict_set d (fst kv) (snd kv)) [] items"

text \<open>\<open>json.load\<close>: an array becomes a list, an object a dict with string keys.\<close>

primrec json_load :: "json_doc \<Rightarrow> pyval" where
  "json_load JNull = PNone"
| "json_load (JBool b) = PBool b"
| "json_load (JInt i) = PInt i"
| "json_load (JStr s) = PStr s"
| "json_load (JArray xs) = PList (map json_load xs)"
| "json_load (JObject kvs) =
     PDict (dict_of_items (map (map_prod KStr id) (map (map_prod id json_load) kvs)))"

definition python_json :: "pyval \<Rightarrow> pyval option" where
  "python_json x = map_option json_load (json_dump x)"

subsection \<open>The cache manager\<close>

record ('df, 'js) cache =
  local_cache_dir :: string
  local_files :: "string \<rightharpoonup> ('df, 'js) stored_file"
  bucket :: "string \<rightharpoonup> ('df, 'js) stored_file"

text \<open>
  What the environment does to one call of \<open>set\<close>: nothing, the local file cannot be
  opened (the directory is missing, say), the local write breaks off after the file was
  opened, or the upload raises.
\<close>

datatype io_fault = No_Fault | Local_Open_Fails | Local_Dump_Fails | Upload_Fails

text \<open>
  The remote tier at one call of \<open>get\<close>: it answers, it does not (\<open>blob.exists()\<close>
  raises), or it answers and the download of a blob raises (the local directory of the
  key is missing, say).
\<close>

datatype remote_tier = Reachable | Unreachable | Download_Fails

datatype 'a outcome = Returned 'a | Raised

text \<open>\<open>os.path.join\<close> of two components (posixpath).\<close>

definition path_join :: "string \<Rightarrow> string \<Rightarrow> string" where
  "path_join a b =
     (if b \<noteq> [] \<and> hd b = CHR ''/'' then b
      else if a = [] \<or> last a = CHR ''/'' then a @ b
      else a @ ''/'' @ b)"

definition endswith :: "string \<Rightarrow> string \<Rightarrow> bool" where
  "endswith s suffix =
     (length suffix \<le> length s \<and> drop (length s - length suffix) s = suffix)"

text \<open>
  Lines 101-111: the reader is chosen by the extension of the path; an exception of the
  reader is caught and \<open>None\<close> is returned, as for any other extension.
\<close>

definition load_from_local :: "('df, 'js) cache \<Rightarrow> string \<Rightarrow> ('df, 'js) payload option" where
  "load_from_local c local_path =
     (if endswith local_path ''.parquet'' then
        (case local_files c local_path of
           Some (Parquet_File df) \<Rightarrow> Some (DataFrame df)
         | _ \<Rightarrow> None)
      else if endswith local_path ''.json'' then
        (case local_files c local_path of
           Some (Json_File j) \<Rightarrow> Some (Json j)
         | _ \<Rightarrow> None)
      else None)"

text \<open>
  Lines 70-82. Nothing in \<open>get\<close> catches what \<open>blob.exists()\<close> or the download
  raises.
\<close>

definition cache_get ::
    "remote_tier \<Rightarrow> ('df, 'js) cache \<Rightarrow> string \<Rightarrow> ('df, 'js) cache \<times> ('df, 'js) payload option outcome" where
  "cache_get remote c file_name =
     (let local_path = path_join (local_cache_dir c) file_name in
      if local_files c local_path \<noteq> None then (c, Returned (load_from_local c local_path))
      else if remote = Unreachable then (c, Raised)
      else (case bucket c file_name of
              Some blob \<Rightarrow>
                if remote = Download_Fails then (c, Raised)
                else
                  (let c' = c\<lparr>local_files := (local_files c)(local_path \<mapsto> blob)\<rparr>
                   in (c', Returned (load_from_local c' local_path)))
            | None \<Rightarrow> (c, Returned None)))"

text \<open>
  Lines 84-99. The local write and the upload stand in one \<open>try\<close> block whose handler
  prints a warning: the result is the new cache, whether a warning was printed, and the
  outcome of the call. \<open>to_parquet\<close> converts the frame before it opens the file, so
  the file is untouched when the conversion raises; \<open>json.dump\<close> runs on the file
  opened for writing, so the file is left cut off when the encoder raises.
\<close>

record ('df, 'js) set_result =
  cache_after :: "('df, 'js) cache"
  warning :: bool
  call :: "unit outcome"

definition cache_set ::
    "('df, 'js) codec \<Rightarrow> io_fault \<Rightarrow> ('df, 'js) cache \<Rightarrow> string \<Rightarrow> ('df, 'js) payload \<Rightarrow>
     ('df, 'js) set_result" where
  "cache_set cd fault c file_name data =
     (let local_path = path_join (local_cache_dir c) file_name;
          cut_off = c\<lparr>local_files := (local_files c)(local_path \<mapsto> Truncated_File)\<rparr>
      in if fault = Local_Open_Fails
         then \<lparr>cache_after = c, warning = True, call = Returned ()\<rparr>
         else
           (case serialize cd data of
              None \<Rightarrow>
                \<lparr>cache_after = (case data of DataFrame df \<Rightarrow> c | Json j \<Rightarrow> cut_off),
                 warning = True, call = Returned ()\<rparr>
            | Some content \<Rightarrow>
                if fault = Local_Dump_Fails
                then \<lparr>cache_after = cut_off, warning = True, call = Returned ()\<rparr>
                else
                  (let written = c\<lparr>local_files := (local_files c)(local_path \<mapsto> content)\<rparr>
                   in if fault = Upload_Fails
                      then \<lparr>cache_after = written, warning = True, call = Returned ()\<rparr>
                      else \<lparr>cache_after = written\<lparr>bucket := (bucket written)(file_name \<mapsto> content)\<rparr>,
                            warning = False, call = Returned ()\<rparr>)))"

text \<open>
  The extension of a key fits a payload: \<open>.parquet\<close> for a DataFrame, \<open>.json\<close> for
  anything else.
\<close>

definition extension_matches :: "string \<Rightarrow> ('df, 'js) payload \<Rightarrow> bool" where
  "extension_matches file_name data =
     (case data of
        DataFrame df \<Rightarrow> endswith file_name ''.parquet''
      | Json j \<Rightarrow> endswith file_name ''.json'')"

section \<open>Per-asset fetch and merge (main\_pipeline.py)\<close>

subsection \<open>DataFrames\<close>

text \<open>
  A DataFrame is its column names and its rows, a row holding one cell per column. An
  epoch timestamp is the calendar day and the milliseconds since midnight;
  \<open>dt.normalize()\<close> sets the latter to zero. \<open>NaN\<close> also stands for NaT and null.
\<close>

datatype cell = NaN | Num rat | Str string | Time day int

record frame =
  columns :: "string list"
  rows :: "cell list list"

definition empty_frame :: frame where
  "empty_frame = \<lparr>columns = [], rows = []\<rparr>"

text \<open>\<open>df.empty\<close>: an axis has length zero.\<close>

definition df_empty :: "frame \<Rightarrow> bool" where
  "df_empty df = (columns df = [] \<or> rows df = [])"

definition get_cell :: "string list \<Rightarrow> cell list \<Rightarrow> string \<Rightarrow> cell" where
  "get_cell cols r c = (case map_of (zip cols r) c of None \<Rightarrow> NaN | Some v \<Rightarrow> v)"

text \<open>\<open>df[cols]\<close> for a list of columns of the frame.\<close>

definition select :: "string list \<Rightarrow> frame \<Rightarrow> frame" where
  "select cols df = \<lparr>columns = cols, rows = map (\<lambda>r. map (get_cell (columns df) r) cols) (rows df)\<rparr>"

text \<open>\<open>df[c] = f(row)\<close>: the column is replaced when the frame has it, appended otherwise.\<close>

definition assign :: "string \<Rightarrow> (cell list \<Rightarrow> cell) \<Rightarrow> frame \<Rightarrow> frame" where
  "assign c f df =
     (if c \<in> set (columns df)
      then df\<lparr>rows := map (\<lambda>r. map (\<lambda>(k, x). if k = c then f r else x) (zip (columns df) r)) (rows df)\<rparr>
      else \<lparr>columns = columns df @ [c], rows = map (\<lambda>r. r @ [f r]) (rows df)\<rparr>)"

text \<open>
  \<open>pd.merge(left, right, on=keys, how='left')\<close>, the key columns being columns of both
  frames (they are at every use below): every left row, in order, once for each right
  row of the same key, or once with NaN in the right columns when there is none. A
  column that is no key and stands in both frames gets the suffixes \<open>_x\<close> and \<open>_y\<close>.
\<close>

definition merge_left :: "string list \<Rightarrow> frame \<Rightarrow> frame \<Rightarrow> frame" where
  "merge_left keys left right =
     (let shared = (\<lambda>c. c \<notin> set keys \<and> c \<in> set (columns left) \<and> c \<in> set (columns right));
          right_cols = filter (\<lambda>c. c \<notin> set keys) (columns right);
          key_of = (\<lambda>cols r. map (get_cell cols r) keys)
      in \<lparr>columns =
             map (\<lambda>c. if shared c then c @ ''_x'' else c) (columns left) @
             map (\<lambda>c. if shared c then c @ ''_y'' else c) right_cols,
           rows =
             concat (map (\<lambda>l.
               (let matches =
                      filter (\<lambda>r. key_of (columns right) r = key_of (columns left) l) (rows right)
                in if matches = [] then [l @ replicate (length right_cols) NaN]
                   else map (\<lambda>r. l @ map (get_cell (columns right) r) right_cols) matches))
               (rows left))\<rparr>)"

definition date_cell :: "day option \<Rightarrow> cell" where
  "date_cell d = (case d of None \<Rightarrow> NaN | Some x \<Rightarrow> Time x 0)"

definition normalize :: "cell \<Rightarrow> cell" where
  "normalize x = (case x of Time d ms \<Rightarrow> Time d 0 | _ \<Rightarrow> NaN)"

text \<open>A two-column frame of (date, value) rows.\<close>

definition dated_frame :: "string \<Rightarrow> (day option \<times> cell) list \<Rightarrow> frame" where
  "dated_frame c xs = \<lparr>columns = [''date'', c], rows = map (\<lambda>(d, v). [date_cell d, v]) xs\<rparr>"

text \<open>
  \<open>pd.merge(tvl_df, dex_df, on='date', how='outer')\<close> of two (date, value) frames: the
  dates of either frame in ascending order, a missing date first (pandas sorts datetime
  keys as integers, with NaT the least); for each date the rows of the left frame, each
  once for each right row of the date, a side without rows of the date giving NaN.
\<close>

definition date_sort_key :: "day option \<Rightarrow> bool \<times> day" where
  "date_sort_key d = (case d of None \<Rightarrow> (False, (0, 0, 0)) | Some x \<Rightarrow> (True, x))"

definition merge_outer_on_date ::
    "(day option \<times> cell) list \<Rightarrow> (day option \<times> cell) list \<Rightarrow> (day option \<times> cell \<times> cell) list" where
  "merge_outer_on_date left right =
     concat (map (\<lambda>d.
        (let ls = filter (\<lambda>x. fst x = d) left; rs = filter (\<lambda>x. fst x = d) right
         in if rs = [] then map (\<lambda>l. (d, snd l, NaN)) ls
            else if ls = [] then map (\<lambda>r. (d, NaN, snd r)) rs
            else concat (map (\<lambda>l. map (\<lambda>r. (d, snd l, snd r)) rs) ls)))
        (sort_key date_sort_key (remdups (map fst left @ map fst right))))"

subsection \<open>The sources\<close>

text \<open>
  What an API call returns: a reply, an exception whose text contains 429, or any other
  exception.
\<close>

datatype 'a reply = Reply 'a | Error_429 | Error_Other

record market_chart =
  prices :: "((day \<times> int) \<times> cell) list"
  total_volumes :: "((day \<times> int) \<times> cell) list"
  market_caps :: "((day \<times> int) \<times> cell) list"

type_synonym ohlc_data = "((day \<times> int) \<times> cell \<times> cell \<times> cell \<times> cell) list"

text \<open>The dictionary \<open>full_data\<close> of \<open>get_cg_market_data\<close>: either key may be absent.\<close>

record cg_raw =
  price_mcap_vol :: "market_chart option"
  ohlc :: "ohlc_data option"

datatype api_call =
    CoinGecko_market_chart coin_id
  | CoinGecko_ohlc coin_id
  | Llama_chain_chart string
  | Llama_protocol string
  | Llama_dex string
  | LunarCrush string

text \<open>
  The world outside the pipeline. The CoinGecko replies are given per coin and attempt.
  For DeFi Llama the rows are what the response parsers of the pipeline make of the
  response: (date, value) rows, none when the request raised, was not ok or held no data.
  For LunarCrush the frame is the time series after the renaming of its columns, without
  rows when the request failed.
\<close>

record world =
  gcs :: remote_tier
  set_fault :: io_fault
  market_chart_reply :: "coin_id \<Rightarrow> nat \<Rightarrow> market_chart reply"
  ohlc_reply :: "coin_id \<Rightarrow> nat \<Rightarrow> ohlc_data reply"
  llama_chain_tvl :: "string \<Rightarrow> (day option \<times> cell) list"
  llama_protocol_tvl :: "string \<Rightarrow> (day option \<times> cell) list"
  llama_dex_volume :: "string \<Rightarrow> (day option \<times> cell) list"
  lunarcrush_series :: "string \<Rightarrow> frame"

definition max_retries :: nat where
  "max_retries = 3"

text \<open>
  Lines 115-153. \<open>left\<close> attempts remain, \<open>stored\<close> is \<open>full_data['price_mcap_vol']\<close>
  as an earlier attempt left it. The result is the return value and the calls made.
\<close>

fun cg_attempts :: "world \<Rightarrow> coin_id \<Rightarrow> nat \<Rightarrow> nat \<Rightarrow> market_chart option \<Rightarrow>
    cg_raw option \<times> api_call list" where
  "cg_attempts w coin 0 attempt stored = (None, [])"
| "cg_attempts w coin (Suc left) attempt stored =
     (case market_chart_reply w coin attempt of
        Reply chart \<Rightarrow>
          (case ohlc_reply w coin attempt of
             Reply candles \<Rightarrow>
               (Some \<lparr>price_mcap_vol = Some chart, ohlc = Some candles\<rparr>,
                [CoinGecko_market_chart coin, CoinGecko_ohlc coin])
           | Error_429 \<Rightarrow>
               (let (raw, calls) = cg_attempts w coin left (Suc attempt) (Some chart)
                in (raw, CoinGecko_market_chart coin # CoinGecko_ohlc coin # calls))
           | Error_Other \<Rightarrow>
               (Some \<lparr>price_mcap_vol = Some chart, ohlc = None\<rparr>,
                [CoinGecko_market_chart coin, CoinGecko_ohlc coin]))
      | Error_429 \<Rightarrow>
          (let (raw, calls) = cg_attempts w coin left (Suc attempt) stored
           in (raw, CoinGecko_market_chart coin # calls))
      | Error_Other \<Rightarrow>
          (case stored of
             Some chart \<Rightarrow>
               (Some \<lparr>price_mcap_vol = Some chart, ohlc = None\<rparr>, [CoinGecko_market_chart coin])
           | None \<Rightarrow> (None, [CoinGecko_market_chart coin])))"

definition get_cg_market_data :: "world \<Rightarrow> coin_id \<Rightarrow> cg_raw option \<times> api_call list" where
  "get_cg_market_data w coin = cg_attempts w coin max_retries 0 None"

definition final_cols :: "string list" where
  "final_cols =
     [''date'', ''coin_id'', ''ticker'', ''open'', ''high'', ''low'', ''close'', ''volume'',
      ''market_cap'']"

definition timestamp_frame :: "string \<Rightarrow> ((day \<times> int) \<times> cell) list \<Rightarrow> frame" where
  "timestamp_frame c xs =
     \<lparr>columns = [''timestamp'', c], rows = map (\<lambda>((d, ms), v). [Time d ms, v]) xs\<rparr>"

definition ticker_cell :: "(coin_id \<rightharpoonup> string) \<Rightarrow> coin_id \<Rightarrow> cell" where
  "ticker_cell ticker_map coin = (case ticker_map coin of None \<Rightarrow> NaN | Some t \<Rightarrow> Str t)"

text \<open>Lines 156-196.\<close>

definition process_market_data_to_df :: "cg_raw option \<Rightarrow> coin_id \<Rightarrow> (coin_id \<rightharpoonup> string) \<Rightarrow> frame" where
  "process_market_data_to_df raw_data coin ticker_map =
     (case raw_data of
        None \<Rightarrow> empty_frame
      | Some raw \<Rightarrow>
          (case price_mcap_vol raw of
             None \<Rightarrow> empty_frame
           | Some chart \<Rightarrow>
               if prices chart = [] then empty_frame
               else
                 (let df_base = timestamp_frame ''close'' (prices chart);
                      df_vol = timestamp_frame ''volume'' (total_volumes chart);
                      df_mcap = timestamp_frame ''market_cap'' (market_caps chart);
                      df1 = merge_left [''timestamp''] df_base df_vol;
                      df2 = merge_left [''timestamp''] df1 df_mcap;
                      df3 = assign ''date'' (\<lambda>r. normalize (get_cell (columns df2) r ''timestamp'')) df2;
                      df4 =
                        (case ohlc raw of
                           None \<Rightarrow> df3
                         | Some candles \<Rightarrow>
                             if candles = [] then df3
                             else
                               (let df_ohlc =
                                      \<lparr>columns = [''date'', ''open'', ''high'', ''low''],
                                       rows = map (\<lambda>((d, ms), op, hi, lo, cl). [Time d 0, op, hi, lo])
                                                candles\<rparr>
                                in merge_left [''date''] df3 df_ohlc));
                      df5 = assign ''coin_id'' (\<lambda>r. Str coin) df4;
                      df6 = assign ''ticker'' (\<lambda>r. ticker_cell ticker_map coin) df5
                  in select (filter (\<lambda>c. c \<in> set (columns df6)) final_cols) df6)))"

text \<open>Lines 252-284; the two requests are made whatever the first returns.\<close>

definition get_and_process_protocol_data ::
    "world \<Rightarrow> string \<Rightarrow> coin_id \<Rightarrow> (coin_id \<rightharpoonup> string) \<Rightarrow> frame \<times> api_call list" where
  "get_and_process_protocol_data w llama_slug coin ticker_map =
     (let tvl_df = llama_protocol_tvl w llama_slug;
          dex_df = llama_dex_volume w llama_slug;
          calls = [Llama_protocol llama_slug, Llama_dex llama_slug]
      in if tvl_df = [] \<and> dex_df = [] then (empty_frame, calls)
         else
           (let merged_df =
                  (if tvl_df = [] then
                     assign ''protocol_tvl'' (\<lambda>r. NaN) (dated_frame ''dex_volume'' dex_df)
                   else if dex_df = [] then
                     assign ''dex_volume'' (\<lambda>r. NaN) (dated_frame ''protocol_tvl'' tvl_df)
                   else
                     \<lparr>columns = [''date'', ''protocol_tvl'', ''dex_volume''],
                      rows = map (\<lambda>(d, t, v). [date_cell d, t, v]) (merge_outer_on_date tvl_df dex_df)\<rparr>)
            in (assign ''ticker'' (\<lambda>r. ticker_cell ticker_map coin)
                  (assign ''coin_id'' (\<lambda>r. Str coin) merged_df),
                calls)))"

definition lunarcrush_required_cols :: "string list" where
  "lunarcrush_required_cols =
     [''date'', ''coin_id'', ''lc_galaxy_score'', ''lc_alt_rank'', ''lc_social_dominance'',
      ''lc_sentiment'']"

text \<open>
  Lines 287-333. A time series without a date column makes \<open>df['date']\<close> raise, which
  the handler turns into the empty frame. Line 320 sets the date column to midnight.
\<close>

definition get_and_process_lunarcrush_data ::
    "world \<Rightarrow> string \<Rightarrow> coin_id \<Rightarrow> frame \<times> api_call list" where
  "get_and_process_lunarcrush_data w ticker coin =
     (if ticker = [] then (empty_frame, [])
      else
        (let series = lunarcrush_series w ticker
         in if rows series = [] \<or> ''date'' \<notin> set (columns series) then (empty_frame, [LunarCrush ticker])
            else
              (let dated =
                     assign ''date'' (\<lambda>r. normalize (get_cell (columns series) r ''date'')) series;
                   df = assign ''coin_id'' (\<lambda>r. Str coin) dated
               in (select (filter (\<lambda>c. c \<in> set (columns df)) lunarcrush_required_cols) df,
                   [LunarCrush ticker]))))"

text \<open>\<open>str.upper\<close> on ASCII strings.\<close>

definition upper :: "string \<Rightarrow> string" where
  "upper s = map (\<lambda>c. if CHR ''a'' \<le> c \<and> c \<le> CHR ''z'' then char_of (of_char c - (32::nat)) else c) s"

subsection \<open>The orchestration\<close>

text \<open>Lines 402-410: the chain TVL, asked for when the coin is a key of the chain map.\<close>

definition fetch_chain_tvl ::
    "world \<Rightarrow> coin_id \<Rightarrow> (coin_id \<rightharpoonup> string) \<Rightarrow> (coin_id \<rightharpoonup> string) \<Rightarrow> frame \<times> api_call list" where
  "fetch_chain_tvl w coin ticker_map llama_chain_map =
     (case llama_chain_map coin of
        None \<Rightarrow> (empty_frame, [])
      | Some slug \<Rightarrow>
          (assign ''ticker'' (\<lambda>r. ticker_cell ticker_map coin)
             (assign ''coin_id'' (\<lambda>r. Str coin)
                (dated_frame ''chain_tvl'' (llama_chain_tvl w slug))),
           [Llama_chain_chart slug]))"

text \<open>
  Lines 412-417: the protocol data, asked for when the coin is a key of the protocol map
  and its slug is not empty.
\<close>

definition fetch_protocol_data ::
    "world \<Rightarrow> coin_id \<Rightarrow> (coin_id \<rightharpoonup> string) \<Rightarrow> (coin_id \<rightharpoonup> string) \<Rightarrow> frame \<times> api_call list" where
  "fetch_protocol_data w coin ticker_map llama_protocol_map =
     (case llama_protocol_map coin of
        None \<Rightarrow> (empty_frame, [])
      | Some slug \<Rightarrow>
          if slug = [] then (empty_frame, [])
          else get_and_process_protocol_data w slug coin ticker_map)"

text \<open>Lines 422-432: a source is merged onto the market data only when its frame is not empty.\<close>

definition merge_sources :: "frame \<Rightarrow> frame \<Rightarrow> frame \<Rightarrow> frame \<Rightarrow> frame" where
  "merge_sources final_coin_df chain_tvl_df protocol_data_df lunarcrush_df =
     (let df1 =
            (if \<not> df_empty chain_tvl_df
             then merge_left [''date'', ''coin_id''] final_coin_df
                    (select [''date'', ''coin_id'', ''chain_tvl''] chain_tvl_df)
             else final_coin_df);
          df2 =
            (if \<not> df_empty protocol_data_df
             then (let data_columns =
                         filter (\<lambda>col. col \<in> set (columns protocol_data_df))
                           [''protocol_tvl'', ''dex_volume'']
                   in if data_columns \<noteq> []
                      then merge_left [''date'', ''coin_id''] df1
                             (select ([''date'', ''coin_id''] @ data_columns) protocol_data_df)
                      else df1)
             else df1)
      in if \<not> df_empty lunarcrush_df
         then merge_left [''date'', ''coin_id''] df2 lunarcrush_df
         else df2)"

text \<open>
  The result of one call of the orchestration: what it returned, the cache it left, the
  API calls it made, in order, and the keys it called \<open>set\<close> with.
\<close>

record 'js fetch_result =
  returned :: "(frame, 'js) payload outcome"
  cacher :: "(frame, 'js) cache"
  calls_made :: "api_call list"
  cache_writes :: "string list"

definition cache_key_of :: "coin_id \<Rightarrow> string" where
  "cache_key_of coin = ''coin_history/'' @ coin @ ''.parquet''"

text \<open>Lines 382-438; \<open>cd\<close> is the codec of the file formats the cache writes.\<close>

definition fetch_and_cache_coin_history ::
    "(frame, 'js) codec \<Rightarrow> world \<Rightarrow> coin_id \<Rightarrow> (coin_id \<rightharpoonup> string) \<Rightarrow> (coin_id \<rightharpoonup> string) \<Rightarrow>
     (coin_id \<rightharpoonup> string) \<Rightarrow> (frame, 'js) cache \<Rightarrow> 'js fetch_result" where
  "fetch_and_cache_coin_history cd w coin ticker_map llama_protocol_map llama_chain_map c =
     (let cache_key = cache_key_of coin
      in case cache_get (gcs w) c cache_key of
           (c1, Raised) \<Rightarrow> \<lparr>returned = Raised, cacher = c1, calls_made = [], cache_writes = []\<rparr>
         | (c1, Returned (Some cached_df)) \<Rightarrow>
             \<lparr>returned = Returned cached_df, cacher = c1, calls_made = [], cache_writes = []\<rparr>
         | (c1, Returned None) \<Rightarrow>
             (let ticker = upper (case ticker_map coin of None \<Rightarrow> [] | Some t \<Rightarrow> t);
                  (cg_raw, calls1) = get_cg_market_data w coin;
                  final_coin_df = process_market_data_to_df cg_raw coin ticker_map
              in if df_empty final_coin_df
                 then \<lparr>returned = Returned (DataFrame empty_frame), cacher = c1,
                       calls_made = calls1, cache_writes = []\<rparr>
                 else
                   (let (chain_tvl_df, calls2) = fetch_chain_tvl w coin ticker_map llama_chain_map;
                        (protocol_data_df, calls3) =
                          fetch_protocol_data w coin ticker_map llama_protocol_map;
                        (lunarcrush_df, calls4) = get_and_process_lunarcrush_data w ticker coin;
                        merged = merge_sources final_coin_df chain_tvl_df protocol_data_df lunarcrush_df;
                        calls = calls1 @ calls2 @ calls3 @ calls4
                    in if \<not> df_empty merged
                       then
                         (let r = cache_set cd (set_fault w) c1 cache_key (DataFrame merged)
                          in \<lparr>returned = Returned (DataFrame merged), cacher = cache_after r,
                               calls_made = calls, cache_writes = [cache_key]\<rparr>)
                       else \<lparr>returned = Returned (DataFrame merged), cacher = c1,
                             calls_made = calls, cache_writes = []\<rparr>)))"

text \<open>The calls to the sources other than the market data.\<close>

fun is_secondary :: "api_call \<Rightarrow> bool" where
  "is_secondary (CoinGecko_market_chart c) = False"
| "is_secondary (CoinGecko_ohlc c) = False"
| "is_secondary (Llama_chain_chart s) = True"
| "is_secondary (Llama_protocol s) = True"
| "is_secondary (Llama_dex s) = True"
| "is_secondary (LunarCrush t) = True"

text \<open>The frame a call returned, if it returned one.\<close>

definition result_frame :: "'js fetch_result \<Rightarrow> frame option" where
  "result_frame r = (case returned r of Returned (DataFrame df) \<Rightarrow> Some df | _ \<Rightarrow> None)"

subsection \<open>The columns of a merged frame\<close>

text \<open>
  The columns of the market data when there is no OHLC data, the social metrics, and,
  for a world and a coin, whether the market data came with OHLC data, which secondary
  sources returned rows, and the columns the merged frame then has: those of the market
  data, then those of each secondary source that returned rows.
\<close>

definition short_cols :: "string list" where
  "short_cols = [''date'', ''coin_id'', ''ticker'', ''close'', ''volume'', ''market_cap'']"

definition lc_metrics :: "string list" where
  "lc_metrics = [''lc_galaxy_score'', ''lc_alt_rank'', ''lc_social_dominance'', ''lc_sentiment'']"

definition ohlc_returned :: "cg_raw option \<Rightarrow> bool" where
  "ohlc_returned raw_data =
     (case raw_data of
        None \<Rightarrow> False
      | Some raw \<Rightarrow> (case ohlc raw of None \<Rightarrow> False | Some candles \<Rightarrow> candles \<noteq> []))"

definition chain_returned :: "world \<Rightarrow> coin_id \<Rightarrow> (coin_id \<rightharpoonup> string) \<Rightarrow> bool" where
  "chain_returned w coin llama_chain_map =
     (case llama_chain_map coin of None \<Rightarrow> False | Some slug \<Rightarrow> llama_chain_tvl w slug \<noteq> [])"

definition protocol_returned :: "world \<Rightarrow> coin_id \<Rightarrow> (coin_id \<rightharpoonup> string) \<Rightarrow> bool" where
  "protocol_returned w coin llama_protocol_map =
     (case llama_protocol_map coin of
        None \<Rightarrow> False
      | Some slug \<Rightarrow>
          slug \<noteq> [] \<and> (llama_protocol_tvl w slug \<noteq> [] \<or> llama_dex_volume w slug \<noteq> []))"

definition social_columns :: "world \<Rightarrow> string \<Rightarrow> string list" where
  "social_columns w ticker =
     (if ticker = [] \<or> rows (lunarcrush_series w ticker) = [] \<or>
         ''date'' \<notin> set (columns (lunarcrush_series w ticker))
      then []
      else filter (\<lambda>c. c \<in> set (columns (lunarcrush_series w ticker))) lc_metrics)"

definition merged_columns ::
    "world \<Rightarrow> coin_id \<Rightarrow> (coin_id \<rightharpoonup> string) \<Rightarrow> (coin_id \<rightharpoonup> string) \<Rightarrow> (coin_id \<rightharpoonup> string) \<Rightarrow> string list" where
  "merged_columns w coin ticker_map llama_protocol_map llama_chain_map =
     (if ohlc_returned (fst (get_cg_market_data w coin)) then final_cols else short_cols)
     @ (if chain_returned w coin llama_chain_map then [''chain_tvl''] else [])
     @ (if protocol_returned w coin llama_protocol_map then [''protocol_tvl'', ''dex_volume''] else [])
     @ social_columns w (upper (case ticker_map coin of None \<Rightarrow> [] | Some t \<Rightarrow> t))"

text \<open>
  A column of a frame is filled with NaN when the frame has the column and every row
  holds NaN in it. Of the two protocol sources, only the DEX volume, or only the
  protocol TVL, returned rows.
\<close>

definition all_nan :: "string \<Rightarrow> frame \<Rightarrow> bool" where
  "all_nan c df = (c \<in> set (columns df) \<and> list_all (\<lambda>r. get_cell (columns df) r c = NaN) (rows df))"

definition only_dex_returned :: "world \<Rightarrow> coin_id \<Rightarrow> (coin_id \<rightharpoonup> string) \<Rightarrow> bool" where
  "only_dex_returned w coin llama_protocol_map =
     (case llama_protocol_map coin of
        None \<Rightarrow> False
      | Some slug \<Rightarrow>
          slug \<noteq> [] \<and> llama_protocol_tvl w slug = [] \<and> llama_dex_volume w slug \<noteq> [])"

definition only_tvl_returned :: "world \<Rightarrow> coin_id \<Rightarrow> (coin_id \<rightharpoonup> string) \<Rightarrow> bool" where
  "only_tvl_returned w coin llama_protocol_map =
     (case llama_protocol_map coin of
        None \<Rightarrow> False
      | Some slug \<Rightarrow>
          slug \<noteq> [] \<and> llama_protocol_tvl w slug \<noteq> [] \<and> llama_dex_volume w slug = [])"

section \<open>Example inputs\<close>

text \<open>Market-cap rows of three coins over the first months of 2022.\<close>

definition rows_a :: "mcap_row list" where
  "rows_a =
     [\<lparr>date = Some (2022, 1, 5), coin_id = ''zz'', market_cap = Some 100\<rparr>,
      \<lparr>date = Some (2022, 1, 5), coin_id = ''aa'', market_cap = Some 100\<rparr>,
      \<lparr>date = Some (2022, 2, 3), coin_id = ''zz'', market_cap = Some 300\<rparr>]"

definition rows_b :: "mcap_row list" where
  "rows_b =
     [\<lparr>date = Some (2022, 1, 5), coin_id = ''zz'', market_cap = Some 100\<rparr>,
      \<lparr>date = Some (2022, 1, 5), coin_id = ''aa'', market_cap = Some 100\<rparr>,
      \<lparr>date = Some (2022, 2, 3), coin_id = ''zz'', market_cap = Some 7\<rparr>,
      \<lparr>date = Some (2022, 3, 1), coin_id = ''mm'', market_cap = Some 900\<rparr>]"

definition rows_c :: "mcap_row list" where
  "rows_c =
     [\<lparr>date = Some (2022, 1, 5), coin_id = ''bb'', market_cap = Some 100\<rparr>,
      \<lparr>date = Some (2022, 1, 5), coin_id = ''aa'', market_cap = Some 90\<rparr>,
      \<lparr>date = Some (2022, 1, 5), coin_id = ''cc'', market_cap = Some 80\<rparr>]"

text \<open>Histories as the assembly stage receives them, and a universe of two periods.\<close>

definition early_history :: "unit history_row list" where
  "early_history = [\<lparr>date = Some (2021, 12, 31), coin_id = ''x'', others = ()\<rparr>]"

definition btc_history :: "unit history_row list" where
  "btc_history =
     [\<lparr>date = Some (2021, 12, 31), coin_id = ''bitcoin'', others = ()\<rparr>,
      \<lparr>date = Some (2022, 1, 31), coin_id = ''bitcoin'', others = ()\<rparr>,
      \<lparr>date = Some (2022, 2, 28), coin_id = ''bitcoin'', others = ()\<rparr>]"

definition wbtc_history :: "unit history_row list" where
  "wbtc_history =
     [\<lparr>date = Some (2022, 1, 31), coin_id = ''wrapped-bitcoin'', others = ()\<rparr>,
      \<lparr>date = Some (2022, 1, 5), coin_id = ''wrapped-bitcoin'', others = ()\<rparr>]"

definition example_period_data :: "unit history_row list list" where
  "example_period_data =
     all_period_data
       [((2022, 2, 1), [''wrapped-bitcoin'', ''bitcoin'']), ((2022, 3, 1), [''bitcoin''])]
       (map_of [(''bitcoin'', btc_history), (''wrapped-bitcoin'', wbtc_history)])"


text \<open>
  The file formats of the examples: the JSON format of Python, and a parquet format that
  gives back every frame it is given. A cache without entries, a frame and a slug map.
\<close>

definition python_codec :: "(frame, pyval) codec" where
  "python_codec = \<lparr>parquet = Some, json = python_json\<rparr>"

definition empty_cache :: "(frame, pyval) cache" where
  "empty_cache = \<lparr>local_cache_dir = ''cache'', local_files = Map.empty, bucket = Map.empty\<rparr>"

definition small_frame :: frame where
  "small_frame = \<lparr>columns = [''b''], rows = [[Num 3], [Num 4]]\<rparr>"


text \<open>
  A world in which CoinGecko answers every request with a rate-limit error while the
  other sources have data, a cache without entries, and maps that know one coin.
\<close>

definition rate_limited_world :: world where
  "rate_limited_world =
     \<lparr>gcs = Reachable, set_fault = No_Fault,
      market_chart_reply = (\<lambda>coin attempt. Error_429),
      ohlc_reply = (\<lambda>coin attempt. Error_429),
      llama_chain_tvl = (\<lambda>slug. [(Some (2022, 1, 2), Num 77)]),
      llama_protocol_tvl = (\<lambda>slug. [(Some (2022, 1, 2), Num 5)]),
      llama_dex_volume = (\<lambda>slug. []),
      lunarcrush_series = (\<lambda>ticker. \<lparr>columns = [''date'', ''lc_sentiment''],
         rows = [[Time (2022, 1, 1) 0, Num 3]]\<rparr>)\<rparr>"

definition no_history_cache :: "(frame, pyval) cache" where
  "no_history_cache = \<lparr>local_cache_dir = ''cache'', local_files = Map.empty, bucket = Map.empty\<rparr>"

definition btc_maps :: "coin_id \<rightharpoonup> string" where
  "btc_maps = map_of [(''bitcoin'', ''btc'')]"

text \<open>
  A world in which CoinGecko returns a market chart and no OHLC data, the chain TVL and
  the social series have rows and the protocol sources have none.
\<close>

definition calm_world :: world where
  "calm_world =
     \<lparr>gcs = Reachable, set_fault = No_Fault,
      market_chart_reply = (\<lambda>coin attempt. Reply
         \<lparr>prices = [(((2022, 1, 1), 0), Num 10), (((2022, 1, 2), 0), Num 11)],
          total_volumes = [(((2022, 1, 1), 0), Num 500)],
          market_caps = [(((2022, 1, 1), 0), Num 9000), (((2022, 1, 2), 0), Num 9900)]\<rparr>),
      ohlc_reply = (\<lambda>coin attempt. Error_Other),
      llama_chain_tvl = (\<lambda>slug. [(Some (2022, 1, 2), Num 77)]),
      llama_protocol_tvl = (\<lambda>slug. []),
      llama_dex_volume = (\<lambda>slug. []),
      lunarcrush_series = (\<lambda>ticker. \<lparr>columns = [''date'', ''lc_sentiment''],
         rows = [[Time (2022, 1, 1) 0, Num 3]]\<rparr>)\<rparr>"

text \<open>
  A world in which CoinGecko returns a market chart and OHLC data, the DEX volume has a
  row and the protocol TVL, the chain TVL and the social series have none.
\<close>

definition dex_only_world :: world where
  "dex_only_world =
     \<lparr>gcs = Reachable, set_fault = No_Fault,
      market_chart_reply = (\<lambda>coin attempt. Reply
         \<lparr>prices = [(((2022, 1, 1), 0), Num 10), (((2022, 1, 2), 0), Num 11)],
          total_volumes = [(((2022, 1, 1), 0), Num 500)],
          market_caps = [(((2022, 1, 1), 0), Num 9000), (((2022, 1, 2), 0), Num 9900)]\<rparr>),
      ohlc_reply = (\<lambda>coin attempt. Reply [(((2022, 1, 1), 0), Num 9, Num 12, Num 8, Num 10)]),
      llama_chain_tvl = (\<lambda>slug. []),
      llama_protocol_tvl = (\<lambda>slug. []),
      llama_dex_volume = (\<lambda>slug. [(Some (2022, 1, 2), Num 40)]),
      lunarcrush_series = (\<lambda>ticker. \<lparr>columns = [''date'', ''lc_sentiment''], rows = []\<rparr>)\<rparr>"

section \<open>Properties of the universe construction\<close>

lemma groupby_mean_filter:
  "filter (\<lambda>x. P (fst x)) (groupby_mean kvs) = groupby_mean (filter (\<lambda>kv. P (fst kv)) kvs)"
proof -
  have keys: "filter P (sort (remdups (map fst kvs)))
      = sort (remdups (map fst (filter (\<lambda>kv. P (fst kv)) kvs)))"
    by (simp add: filter_sort remdups_filter [symmetric] filter_map o_def)
  have grp: "filter (\<lambda>kv. fst kv = k) (filter (\<lambda>kv. P (fst kv)) kvs)
      = filter (\<lambda>kv. fst kv = k) kvs" if "P k" for k
    using that by (induction kvs) auto
  have "filter (\<lambda>x. P (fst x)) (groupby_mean kvs)
      = map (\<lambda>k. (k, mean (map snd (filter (\<lambda>kv. fst kv = k) kvs))))
          (filter P (sort (remdups (map fst kvs))))"
    by (simp add: groupby_mean_def filter_map o_def)
  also have "\<dots> = map (\<lambda>k. (k, mean (map snd (filter (\<lambda>kv. fst kv = k)
          (filter (\<lambda>kv. P (fst kv)) kvs)))))
          (filter P (sort (remdups (map fst kvs))))"
  proof (rule map_cong [OF refl])
    fix k assume "k \<in> set (filter P (sort (remdups (map fst kvs))))"
    then have "P k" by simp
    then show "(k, mean (map snd (filter (\<lambda>kv. fst kv = k) kvs)))
        = (k, mean (map snd (filter (\<lambda>kv. fst kv = k) (filter (\<lambda>kv. P (fst kv)) kvs))))"
      by (simp only: grp)
  qed
  finally show ?thesis
    by (simp add: keys groupby_mean_def)
qed

lemma rank_first_filter:
  "fst (fst r) = p \<Longrightarrow>
   rank_first (filter (\<lambda>x. fst (fst x) = p) df) (filter (\<lambda>x. fst (fst x) = p) seen) r
     = rank_first df seen r"
  by (auto simp: rank_first_def intro!: arg_cong [where f = length] filter_cong)

lemma rank_rows_filter:
  "filter (\<lambda>x. fst (fst (fst x)) = p) (rank_rows df seen todo)
     = rank_rows (filter (\<lambda>x. fst (fst x) = p) df) (filter (\<lambda>x. fst (fst x) = p) seen)
         (filter (\<lambda>x. fst (fst x) = p) todo)"
proof (induction todo arbitrary: seen)
  case Nil
  show ?case by simp
next
  case (Cons r rs)
  show ?case
    using Cons.IH [of "seen @ [r]"] by (simp add: rank_first_filter)
qed

lemma master_df_filter:
  "filter (\<lambda>x. fst x = p) (master_df (filter (dated_up_to p) hs))
     = filter (\<lambda>x. fst x = p) (master_df hs)"
proof (induction hs)
  case Nil
  show ?case by (simp add: master_df_def)
next
  case (Cons r rs)
  have skip: "\<not> dated_up_to p r \<Longrightarrow> master_row r = Some x \<Longrightarrow> fst x \<noteq> p" for x
    by (auto simp: dated_up_to_def master_row_def split: option.splits if_splits)
  show ?case
  proof (cases "master_row r")
    case None
    with Cons show ?thesis by (simp add: master_df_def)
  next
    case (Some x)
    show ?thesis
    proof (cases "dated_up_to p r")
      case True
      with Cons Some show ?thesis by (simp add: master_df_def)
    next
      case False
      with Some have "fst x \<noteq> p" by (rule skip [rotated])
      with Cons Some False show ?thesis by (simp add: master_df_def)
    qed
  qed
qed

lemma monthly_avg_mcap_filter:
  "filter (\<lambda>x. fst (fst x) = p) (monthly_avg_mcap hs) = month_frame p hs"
proof -
  have "filter (\<lambda>kv. fst (fst kv) = p) (map (\<lambda>(m, c, v). ((m, c), v)) xs)
      = map (\<lambda>(m, c, v). ((m, c), v)) (filter (\<lambda>x. fst x = p) xs)" for xs :: "(period \<times> coin_id \<times> rat) list"
    by (induction xs) auto
  then show ?thesis
    unfolding monthly_avg_mcap_def month_frame_def
    by (simp add: groupby_mean_filter [where P = "\<lambda>k. fst k = p"])
qed

lemma top_n_df_filter:
  "filter (\<lambda>x. fst (fst (fst x)) = p) (top_n_df n hs)
     = filter (\<lambda>x. snd x \<le> n) (rank_rows (month_frame p hs) [] (month_frame p hs))"
proof -
  have "filter (\<lambda>x. fst (fst (fst x)) = p) (top_n_df n hs)
      = filter (\<lambda>x. snd x \<le> n) (filter (\<lambda>x. fst (fst (fst x)) = p) (ranked hs))"
    by (auto simp: top_n_df_def intro: filter_cong)
  then show ?thesis
    by (simp add: ranked_def Let_def rank_rows_filter monthly_avg_mcap_filter)
qed

lemma snapshot_eq:
  "snapshot n hs p =
     (let g = filter (\<lambda>x. fst (fst (fst x)) = p) (top_n_df n hs)
      in if g = [] then None else Some (map (\<lambda>x. snd (fst (fst x))) g))"
proof -
  have mem: "p \<in> set (map (\<lambda>x. fst (fst (fst x))) xs) \<longleftrightarrow> filter (\<lambda>x. fst (fst (fst x)) = p) xs \<noteq> []"
    for xs :: "(((period \<times> coin_id) \<times> rat) \<times> nat) list"
    by (auto simp: filter_empty_conv)
  show ?thesis
    unfolding snapshot_def point_in_time_universe_def Let_def
    by (simp only: map_of_map_restrict) (use mem in \<open>auto simp: restrict_map_def\<close>)
qed

lemma snapshot_month_frame:
  "snapshot n hs p =
     (let g = filter (\<lambda>x. snd x \<le> n) (rank_rows (month_frame p hs) [] (month_frame p hs))
      in if g = [] then None else Some (map (\<lambda>x. snd (fst (fst x))) g))"
  by (simp add: snapshot_eq top_n_df_filter)

lemma ranked_filter:
  "filter (\<lambda>x. fst (fst (fst x)) = p) (ranked hs)
     = rank_rows (month_frame p hs) [] (month_frame p hs)"
  by (simp add: ranked_def Let_def rank_rows_filter monthly_avg_mcap_filter)

text \<open>
  Claim C1 (no look-ahead). The snapshot of a period \<open>p\<close>, and the ranks of the
  period, are the same for two inputs that agree, as lists, on the rows dated within or
  before \<open>p\<close>: rows dated after the end of \<open>p\<close> can be added, removed or changed
  without changing them.
\<close>

theorem no_look_ahead:
  assumes "filter (dated_up_to p) hs = filter (dated_up_to p) hs'"
  shows "snapshot n hs p = snapshot n hs' p \<and>
         filter (\<lambda>x. fst (fst (fst x)) = p) (ranked hs)
           = filter (\<lambda>x. fst (fst (fst x)) = p) (ranked hs')"
proof -
  have "filter (\<lambda>x. fst x = p) (master_df hs) = filter (\<lambda>x. fst x = p) (master_df hs')"
    using assms master_df_filter [of p hs] master_df_filter [of p hs'] by simp
  then have "month_frame p hs = month_frame p hs'"
    by (simp add: month_frame_def)
  then show ?thesis
    by (simp add: snapshot_month_frame ranked_filter)
qed

theorem no_look_ahead_witness:
  "filter (dated_up_to (2022, 1)) rows_a = filter (dated_up_to (2022, 1)) rows_b \<and>
   snapshot 1 rows_a (2022, 1) = snapshot 1 rows_b (2022, 1) \<and>
   snapshot 1 rows_b (2022, 1) = Some [''aa'']"
proof -
  have h: "filter (dated_up_to (2022, 1)) rows_a = filter (dated_up_to (2022, 1)) rows_b"
    by code_simp
  have v: "snapshot 1 rows_b (2022, 1) = Some [''aa'']"
    by code_simp
  from no_look_ahead [OF h, of 1] h v show ?thesis by simp
qed

lemma map_fst_rank_rows: "map fst (rank_rows df seen todo) = todo"
  by (induction todo arbitrary: seen) simp_all

lemma length_rank_rows: "length (rank_rows df seen todo) = length todo"
  by (induction todo arbitrary: seen) simp_all

lemma rank_rows_nth:
  "i < length todo \<Longrightarrow>
   rank_rows df seen todo ! i = (todo ! i, rank_first df (seen @ take i todo) (todo ! i))"
proof (induction todo arbitrary: seen i)
  case Nil
  then show ?case by simp
next
  case (Cons r rs)
  show ?case
  proof (cases i)
    case 0
    then show ?thesis by simp
  next
    case (Suc j)
    with Cons.prems have "j < length rs" by simp
    from Cons.IH [OF this, of "seen @ [r]"] Suc show ?thesis by simp
  qed
qed

lemma map_fst_groupby_mean: "map fst (groupby_mean kvs) = sort (remdups (map fst kvs))"
  by (simp add: groupby_mean_def o_def)

lemma sorted_keys_monthly_avg_mcap: "sorted (map fst (monthly_avg_mcap hs))"
  by (simp add: monthly_avg_mcap_def map_fst_groupby_mean)

lemma distinct_keys_monthly_avg_mcap: "distinct (map fst (monthly_avg_mcap hs))"
  by (simp add: monthly_avg_mcap_def map_fst_groupby_mean)

lemma sorted_coins_of_month:
  fixes ks :: "(period \<times> coin_id) list"
  assumes "sorted ks" and "\<And>k. k \<in> set ks \<Longrightarrow> fst k = p"
  shows "sorted (map snd ks)"
  using assms
proof (induction ks)
  case Nil
  show ?case by simp
next
  case (Cons k ks)
  have "snd k \<le> snd k'" if "k' \<in> set ks" for k'
  proof -
    from Cons.prems(1) that have "k \<le> k'" by simp
    moreover have "fst k = fst k'" using Cons.prems(2) that by simp
    ultimately show ?thesis by (cases k, cases k') (simp add: less_eq_prod_simp)
  qed
  with Cons show ?case by simp
qed

lemma distinct_coins_of_month:
  fixes ks :: "(period \<times> coin_id) list"
  assumes "distinct ks" and "\<And>k. k \<in> set ks \<Longrightarrow> fst k = p"
  shows "distinct (map snd ks)"
proof -
  have "inj_on snd (set ks)"
    by (rule inj_onI) (metis assms(2) prod.expand)
  with assms(1) show ?thesis by (simp add: distinct_map)
qed

text \<open>
  Claim C9 (order of a snapshot). The list of a month is in strictly ascending order of
  coin id, the order of the grouped frame, whatever the ranks of its coins are.
\<close>

theorem snapshot_sorted:
  assumes "snapshot n hs p = Some cs"
  shows "sorted cs \<and> distinct cs"
proof -
  let ?top = "filter (\<lambda>x. fst (fst (fst x)) = p) (top_n_df n hs)"
  let ?ks = "map (\<lambda>x. fst (fst x)) ?top"
  from assms have cs: "cs = map snd ?ks"
    by (simp add: snapshot_eq Let_def o_def split: if_splits)
  have rr: "map (\<lambda>x. fst (fst x)) (ranked hs) = map fst (monthly_avg_mcap hs)"
  proof -
    have "map (\<lambda>x. fst (fst x)) (ranked hs) = map fst (map fst (ranked hs))"
      by (simp add: o_def)
    then show ?thesis
      by (simp only: ranked_def Let_def map_fst_rank_rows)
  qed
  have "?ks = filter (\<lambda>k. fst k = p)
      (map (\<lambda>x. fst (fst x)) (filter (\<lambda>x. snd x \<le> n) (ranked hs)))"
    by (simp add: top_n_df_def filter_map o_def)
  moreover have "sorted (map (\<lambda>x. fst (fst x)) (filter (\<lambda>x. snd x \<le> n) (ranked hs)))"
    by (rule sorted_filter) (simp add: rr sorted_keys_monthly_avg_mcap)
  moreover have "distinct (map (\<lambda>x. fst (fst x)) (filter (\<lambda>x. snd x \<le> n) (ranked hs)))"
    by (rule distinct_map_filter) (simp add: rr distinct_keys_monthly_avg_mcap)
  ultimately have "sorted ?ks" and "distinct ?ks"
    by (simp_all add: sorted_wrt_filter)
  moreover have "\<And>k. k \<in> set ?ks \<Longrightarrow> fst k = p" by auto
  ultimately show ?thesis
    unfolding cs using sorted_coins_of_month distinct_coins_of_month by blast
qed

theorem snapshot_sorted_witness:
  "snapshot 2 rows_c (2022, 1) = Some [''aa'', ''bb''] \<and> sorted [''aa'', ''bb''] \<and>
   distinct [''aa'', ''bb''] \<and>
   map snd (ranked rows_c) = [2, 1, 3]"
proof -
  have s: "snapshot 2 rows_c (2022, 1) = Some [''aa'', ''bb'']" by code_simp
  have r: "map snd (ranked rows_c) = [2, 1, 3]" by code_simp
  from snapshot_sorted [OF s] s r show ?thesis by simp
qed

lemma length_filter_mono:
  "(\<And>x. x \<in> set xs \<Longrightarrow> P x \<Longrightarrow> Q x) \<Longrightarrow> length (filter P xs) \<le> length (filter Q xs)"
  by (induction xs) auto

lemma length_filter_disjoint:
  "(\<And>x. x \<in> set xs \<Longrightarrow> \<not> (P x \<and> Q x)) \<Longrightarrow>
   length (filter P xs) + length (filter Q xs) = length (filter (\<lambda>x. P x \<or> Q x) xs)"
  by (induction xs) auto

lemma length_filter_take_less:
  "i < length xs \<Longrightarrow> P (xs ! i) \<Longrightarrow> length (filter P (take i xs)) < length (filter P xs)"
proof -
  assume i: "i < length xs" and P: "P (xs ! i)"
  have "xs = take i xs @ xs ! i # drop (Suc i) xs"
    using i by (simp add: id_take_nth_drop)
  then have "filter P xs = filter P (take i xs) @ xs ! i # filter P (drop (Suc i) xs)"
    using P by (metis filter.simps(2) filter_append)
  then show ?thesis by simp
qed

lemma length_filter_take_step:
  "i < j \<Longrightarrow> j \<le> length xs \<Longrightarrow> P (xs ! i) \<Longrightarrow>
   length (filter P (take i xs)) < length (filter P (take j xs))"
  using length_filter_take_less [of i "take j xs" P] by (simp add: min_def)

lemma rank_first_greater:
  fixes x y :: "(period \<times> 'c) \<times> rat"
  assumes i: "i < length df" and x: "df ! i = x" and m: "fst (fst x) = fst (fst y)"
    and v: "snd y < snd x"
  shows "rank_first df (take i df) x < rank_first df seen y"
proof -
  let ?G = "\<lambda>w z. fst (fst z) = fst (fst w) \<and> snd w < snd z"
  let ?E = "\<lambda>w z. fst (fst z) = fst (fst w) \<and> snd z = snd w"
  have "length (filter (?E x) (take i df)) < length (filter (?E x) df)"
    using i x by (intro length_filter_take_less) simp_all
  moreover have "length (filter (?G x) df) + length (filter (?E x) df)
      = length (filter (\<lambda>z. ?G x z \<or> ?E x z) df)"
    by (rule length_filter_disjoint) auto
  moreover have "length (filter (\<lambda>z. ?G x z \<or> ?E x z) df) \<le> length (filter (?G y) df)"
    using m v by (intro length_filter_mono) auto
  ultimately show ?thesis
    by (simp add: rank_first_def)
qed

lemma rank_first_tie:
  fixes x y :: "(period \<times> 'c) \<times> rat"
  assumes ij: "i < j" and j: "j \<le> length df" and x: "df ! i = x"
    and m: "fst (fst x) = fst (fst y)" and v: "snd x = snd y"
  shows "rank_first df (take i df) x < rank_first df (take j df) y"
proof -
  let ?E = "\<lambda>z. fst (fst z) = fst (fst x) \<and> snd z = snd x"
  have "length (filter ?E (take i df)) < length (filter ?E (take j df))"
    using ij j x by (intro length_filter_take_step) simp_all
  then show ?thesis
    using m v by (simp add: rank_first_def)
qed

text \<open>
  Claim C3, amended (ranking and ties). Within a month a coin of greater monthly average
  has the smaller rank, and of two coins of equal average the one whose coin id is
  smaller has the smaller rank: ties follow the order of the grouped frame, which is
  the order of the coin ids, not the order of the input.
\<close>

theorem ranked_order:
  assumes a: "(((p, a), va), ka) \<in> set (ranked hs)"
    and b: "(((p, b), vb), kb) \<in> set (ranked hs)"
  shows "(vb < va \<longrightarrow> ka < kb) \<and> (va = vb \<and> a < b \<longrightarrow> ka < kb)"
proof -
  let ?df = "monthly_avg_mcap hs"
  from a obtain i where i: "i < length ?df" and ai: "rank_rows ?df [] ?df ! i = (((p, a), va), ka)"
    by (auto simp: ranked_def Let_def in_set_conv_nth length_rank_rows)
  from b obtain j where j: "j < length ?df" and bj: "rank_rows ?df [] ?df ! j = (((p, b), vb), kb)"
    by (auto simp: ranked_def Let_def in_set_conv_nth length_rank_rows)
  from i ai have xi: "?df ! i = ((p, a), va)" and ka: "ka = rank_first ?df (take i ?df) ((p, a), va)"
    by (auto simp: rank_rows_nth)
  from j bj have yj: "?df ! j = ((p, b), vb)" and kb: "kb = rank_first ?df (take j ?df) ((p, b), vb)"
    by (auto simp: rank_rows_nth)
  have gt: "ka < kb" if "vb < va"
    unfolding ka kb using i xi that by (intro rank_first_greater) simp_all
  have tie: "ka < kb" if "va = vb" and "a < b"
  proof -
    have "i < j"
    proof (rule ccontr)
      assume "\<not> i < j"
      then have "j \<le> i" by simp
      with i have "map fst ?df ! j \<le> map fst ?df ! i"
        using sorted_keys_monthly_avg_mcap [of hs] by (intro sorted_nth_mono) simp_all
      with i j xi yj have "(p, b) \<le> (p, a)" by simp
      with that(2) show False by (simp add: less_eq_prod_simp)
    qed
    with j xi that(1) show ?thesis
      unfolding ka kb by (intro rank_first_tie) simp_all
  qed
  from gt tie show ?thesis by blast
qed

theorem ranked_order_witness:
  "((((2022, 1), ''aa''), 100), 1) \<in> set (ranked rows_a) \<and>
   ((((2022, 1), ''zz''), 100), 2) \<in> set (ranked rows_a) \<and>
   ''aa'' < ''zz'' \<and> (1::nat) < 2"
proof -
  have a: "((((2022, 1), ''aa''), 100), 1) \<in> set (ranked rows_a)" by code_simp
  have b: "((((2022, 1), ''zz''), 100), 2) \<in> set (ranked rows_a)" by code_simp
  have c: "''aa'' < ''zz''" by code_simp
  from ranked_order [OF a b] a b c show ?thesis by simp
qed

text \<open>
  Claim C3 as stated fails: \<open>zz\<close> stands before \<open>aa\<close> in the input, both have the
  monthly average 100 in January 2022, and \<open>aa\<close> gets rank 1.
\<close>

theorem tie_break_counterexample:
  "map coin_id rows_a = [''zz'', ''aa'', ''zz''] \<and>
   ranked rows_a =
     [((((2022, 1), ''aa''), 100), 1), ((((2022, 1), ''zz''), 100), 2),
      ((((2022, 2), ''zz''), 300), 1)] \<and>
   snapshot 1 rows_a (2022, 1) = Some [''aa'']"
  by code_simp

section \<open>Properties of the dataset assembly\<close>

lemma set_drop_duplicates_last_subset: "set (drop_duplicates_last key xs) \<subseteq> set xs"
  by (induction xs) auto

lemma keys_drop_duplicates_last:
  "set (map key (drop_duplicates_last key xs)) = set (map key xs)"
  by (induction xs) auto

lemma distinct_drop_duplicates_last: "distinct (map key (drop_duplicates_last key xs))"
proof (induction xs)
  case Nil
  show ?case by simp
next
  case (Cons x xs)
  have "key x \<notin> set (map key (drop_duplicates_last key xs))" if "key x \<notin> set (map key xs)"
    using that keys_drop_duplicates_last [of key xs] by simp
  with Cons show ?case by simp
qed

lemma set_map_insort_key: "set (map g (insort_key f x xs)) = insert (g x) (set (map g xs))"
  by (induction xs) auto

lemma distinct_map_insort_key:
  "distinct (map g (insort_key f x xs)) \<longleftrightarrow> g x \<notin> set (map g xs) \<and> distinct (map g xs)"
proof (induction xs)
  case Nil
  show ?case by simp
next
  case (Cons y ys)
  show ?case
  proof (cases "f x \<le> f y")
    case True
    then show ?thesis by simp
  next
    case False
    have "set (map g (insort_key f x ys)) = insert (g x) (set (map g ys))"
      by (rule set_map_insort_key)
    with False Cons show ?thesis by auto
  qed
qed

lemma set_map_sort_key: "set (map g (sort_key f xs)) = set (map g xs)"
  by (simp add: image_set [symmetric] del: image_set)

lemma distinct_map_sort_key: "distinct (map g (sort_key f xs)) \<longleftrightarrow> distinct (map g xs)"
proof (induction xs)
  case Nil
  show ?case by simp
next
  case (Cons x xs)
  have "set (map g (sort_key f xs)) = set (map g xs)" by (rule set_map_sort_key)
  with Cons show ?case
    by (simp only: sort_key_simps distinct_map_insort_key list.map distinct.simps)
qed

text \<open>
  Claim C2 (uniqueness). In the frame that is written no two rows have the same
  canonical id and date: after the second deduplication, and the sort, every key
  (canonical id, date) occurs once.
\<close>

theorem final_dataset_unique:
  "distinct (map (\<lambda>r. (canonical_id r, date r)) (final_master_df period_data))"
  unfolding final_master_df_def Let_def
  by (simp only: distinct_map_sort_key distinct_drop_duplicates_last)

theorem final_dataset_unique_witness:
  "map (\<lambda>r. (canonical_id r, date r)) (final_master_df example_period_data)
     = [(''bitcoin'', Some (2022, 1, 5)), (''bitcoin'', Some (2022, 1, 31)),
        (''bitcoin'', Some (2022, 2, 28))] \<and>
   length (concat example_period_data) = 7"
proof -
  have v: "map (\<lambda>r. (canonical_id r, date r)) (final_master_df example_period_data)
     = [(''bitcoin'', Some (2022, 1, 5)), (''bitcoin'', Some (2022, 1, 31)),
        (''bitcoin'', Some (2022, 2, 28))]"
    by code_simp
  have l: "length (concat example_period_data) = 7" by code_simp
  from final_dataset_unique [of example_period_data] v l show ?thesis by simp
qed

lemma date_with_canonical_id: "date (with_canonical_id r) = date r"
  by (simp add: with_canonical_id_def)

lemma set_final_master_df:
  "r \<in> set (final_master_df period_data) \<Longrightarrow>
   \<exists>h \<in> set (concat period_data). on_or_after START_DATE h \<and> r = with_canonical_id h"
proof -
  assume "r \<in> set (final_master_df period_data)"
  then have "r \<in> set (map with_canonical_id (drop_duplicates_last (\<lambda>r. (coin_id r, date r))
      (filter (on_or_after START_DATE) (concat period_data))))"
    unfolding final_master_df_def Let_def
    using set_drop_duplicates_last_subset by (fastforce simp del: set_concat)
  then obtain h where "h \<in> set (drop_duplicates_last (\<lambda>r. (coin_id r, date r))
      (filter (on_or_after START_DATE) (concat period_data)))" and r: "r = with_canonical_id h"
    by auto
  then have "h \<in> set (filter (on_or_after START_DATE) (concat period_data))"
    using set_drop_duplicates_last_subset by fastforce
  with r show ?thesis by auto
qed

text \<open>
  Claim C10 (start-date floor). Every row of the frame that is written has a date, and
  the date is on or after the start date 2022-01-01; the filter stands before both
  deduplications and the canonicalisation in \<open>final_master_df\<close>.
\<close>

theorem start_date_floor:
  "\<forall>r \<in> set (final_master_df period_data). \<exists>d. date r = Some d \<and> START_DATE \<le> d"
proof
  fix r :: "'a panel_row"
  assume "r \<in> set (final_master_df period_data)"
  then obtain h where "on_or_after START_DATE h" and "r = with_canonical_id h"
    using set_final_master_df by blast
  then show "\<exists>d. date r = Some d \<and> START_DATE \<le> d"
    by (auto simp: on_or_after_def date_with_canonical_id split: option.splits)
qed

theorem start_date_floor_witness:
  "map date (final_master_df example_period_data)
     = [Some (2022, 1, 5), Some (2022, 1, 31), Some (2022, 2, 28)] \<and>
   START_DATE \<le> (2022, 1, 5) \<and> START_DATE \<le> (2022, 1, 31) \<and> START_DATE \<le> (2022, 2, 28)"
proof -
  have v: "map date (final_master_df example_period_data)
     = [Some (2022, 1, 5), Some (2022, 1, 31), Some (2022, 2, 28)]"
    by code_simp
  have "list_all (\<lambda>r. \<exists>d. date r = Some d \<and> START_DATE \<le> d) (final_master_df example_period_data)"
    using start_date_floor [of example_period_data] by (simp add: list_all_iff)
  then have "list_all (\<lambda>x. \<exists>d. x = Some d \<and> START_DATE \<le> d) (map date (final_master_df example_period_data))"
    by (simp add: list_all_iff)
  with v show ?thesis by simp
qed

text \<open>
  Claim C8 (empty result). The guard of the last step looks at the list of slices, not at
  the rows: a universe of one period with one coin whose history ends before the start
  date gives one slice, every row of which the start-date filter removes, and the run
  writes a frame without rows and reports completion.
\<close>

theorem empty_artifact_written:
  "assemble [((2022, 1, 1), [''x''])] (map_of [(''x'', early_history)]) = Saved []"
  by code_simp

section \<open>Properties of the cache\<close>

lemma endswith_append: "endswith s suffix \<Longrightarrow> endswith (p @ s) suffix"
  by (auto simp: endswith_def)

lemma endswith_iff: "endswith s suffix \<longleftrightarrow> (\<exists>q. s = q @ suffix)"
proof
  assume "endswith s suffix"
  then have "s = take (length s - length suffix) s @ suffix"
    by (metis append_take_drop_id endswith_def)
  then show "\<exists>q. s = q @ suffix" ..
next
  assume "\<exists>q. s = q @ suffix"
  then show "endswith s suffix" by (auto simp: endswith_def)
qed

lemma endswith_after_sep:
  assumes "endswith (p @ CHR ''/'' # n) suffix" and "CHR ''/'' \<notin> set suffix"
  shows "endswith n suffix"
proof -
  from assms(1) obtain q where "p @ CHR ''/'' # n = q @ suffix"
    by (auto simp: endswith_iff)
  then obtain us where "(p = q @ us \<and> us @ CHR ''/'' # n = suffix) \<or>
      (p @ us = q \<and> CHR ''/'' # n = us @ suffix)"
    by (auto simp: append_eq_append_conv2)
  then show ?thesis
  proof
    assume "p = q @ us \<and> us @ CHR ''/'' # n = suffix"
    then have "CHR ''/'' \<in> set suffix" by auto
    with assms(2) show ?thesis by simp
  next
    assume a: "p @ us = q \<and> CHR ''/'' # n = us @ suffix"
    show ?thesis
    proof (cases us)
      case Nil
      with a have "CHR ''/'' \<in> set suffix" by (metis append_Nil list.set_intros(1))
      with assms(2) show ?thesis by simp
    next
      case (Cons u us')
      with a have "n = us' @ suffix" by simp
      then show ?thesis by (auto simp: endswith_iff)
    qed
  qed
qed

lemma path_join_cases:
  "path_join dir file_name = file_name \<or> (\<exists>p. path_join dir file_name = p @ CHR ''/'' # file_name)"
proof (cases "file_name \<noteq> [] \<and> hd file_name = CHR ''/''")
  case True
  then show ?thesis by (simp add: path_join_def)
next
  case False
  note f = this
  show ?thesis
  proof (cases "dir = []")
    case True
    with f show ?thesis by (simp add: path_join_def)
  next
    case False
    show ?thesis
    proof (cases "last dir = CHR ''/''")
      case True
      with False have "dir = butlast dir @ [CHR ''/'']"
        by (metis append_butlast_last_id)
      then have "dir @ file_name = butlast dir @ CHR ''/'' # file_name"
        by (metis append.assoc append_Cons append_Nil)
      with True f show ?thesis by (auto simp: path_join_def)
    next
      case False
      with f \<open>dir \<noteq> []\<close> show ?thesis by (auto simp: path_join_def)
    qed
  qed
qed

lemma endswith_path_join:
  assumes "CHR ''/'' \<notin> set suffix"
  shows "endswith (path_join dir file_name) suffix \<longleftrightarrow> endswith file_name suffix"
proof
  assume "endswith file_name suffix"
  with path_join_cases [of dir file_name] show "endswith (path_join dir file_name) suffix"
    using endswith_append [of file_name suffix] by (metis append_Cons append_Nil append.assoc)
next
  assume e: "endswith (path_join dir file_name) suffix"
  from path_join_cases [of dir file_name] show "endswith file_name suffix"
  proof
    assume "path_join dir file_name = file_name"
    with e show ?thesis by simp
  next
    assume "\<exists>p. path_join dir file_name = p @ CHR ''/'' # file_name"
    with e assms show ?thesis by (auto dest: endswith_after_sep)
  qed
qed

lemma parquet_path: "endswith (path_join dir file_name) ''.parquet'' \<longleftrightarrow> endswith file_name ''.parquet''"
  by (rule endswith_path_join) simp

lemma json_path: "endswith (path_join dir file_name) ''.json'' \<longleftrightarrow> endswith file_name ''.json''"
  by (rule endswith_path_join) simp

lemma endswith_last:
  "endswith s suffix \<Longrightarrow> suffix \<noteq> [] \<Longrightarrow> last s = last suffix"
  by (auto simp: endswith_iff)

lemma json_not_parquet: "endswith s ''.json'' \<Longrightarrow> \<not> endswith s ''.parquet''"
proof
  assume j: "endswith s ''.json''" and p: "endswith s ''.parquet''"
  have "last s = last ''.json''"
    using j by (rule endswith_last) simp
  moreover have "last s = last ''.parquet''"
    using p by (rule endswith_last) simp
  ultimately show False by simp
qed

lemma read_back_serialize:
  "read_back cd data = Some data' \<Longrightarrow>
   \<exists>content. serialize cd data = Some content \<and>
     ((\<exists>df df'. data = DataFrame df \<and> data' = DataFrame df' \<and> content = Parquet_File df') \<or>
      (\<exists>j j'. data = Json j \<and> data' = Json j' \<and> content = Json_File j'))"
  by (auto simp: read_back_def serialize_def split: payload.splits)

lemma read_back_None: "read_back cd data = None \<longleftrightarrow> serialize cd data = None"
  by (simp add: read_back_def serialize_def split: payload.splits)

text \<open>What \<open>get\<close> returns for a key whose local file holds the file written for a payload.\<close>

lemma get_of_written:
  assumes r: "read_back cd data = Some data'"
    and l: "local_files c (path_join (local_cache_dir c) file_name) = serialize cd data"
  shows "cache_get remote c file_name
    = (c, Returned (if extension_matches file_name data then Some data' else None))"
proof -
  from read_back_serialize [OF r] obtain content where s: "serialize cd data = Some content"
    and k: "(\<exists>df df'. data = DataFrame df \<and> data' = DataFrame df' \<and> content = Parquet_File df') \<or>
      (\<exists>j j'. data = Json j \<and> data' = Json j' \<and> content = Json_File j')"
    by blast
  from k show ?thesis
  proof
    assume "\<exists>df df'. data = DataFrame df \<and> data' = DataFrame df' \<and> content = Parquet_File df'"
    then show ?thesis
      using l s
      by (auto simp: cache_get_def load_from_local_def extension_matches_def Let_def
          parquet_path json_path)
  next
    assume "\<exists>j j'. data = Json j \<and> data' = Json j' \<and> content = Json_File j'"
    then show ?thesis
      using l s json_not_parquet [of file_name]
      by (auto simp: cache_get_def load_from_local_def extension_matches_def Let_def
          parquet_path json_path)
  qed
qed

lemma set_writes_local:
  assumes "fault = No_Fault \<or> fault = Upload_Fails" and "read_back cd data = Some data'"
  shows "local_files (cache_after (cache_set cd fault c file_name data))
     (path_join (local_cache_dir (cache_after (cache_set cd fault c file_name data))) file_name)
     = serialize cd data"
proof -
  from read_back_serialize [OF assms(2)] obtain content where "serialize cd data = Some content"
    by blast
  with assms(1) show ?thesis
    by (auto simp: cache_set_def Let_def)
qed

text \<open>The JSON format reproduces the slug maps of the pipeline: dicts from strings to strings.\<close>

lemma those_map_Some: "those (map Some xs) = Some xs"
  by (induction xs) simp_all

lemma dict_set_fresh: "k \<notin> fst ` set d \<Longrightarrow> dict_set d k v = d @ [(k, v)]"
  by (induction d) auto

lemma foldl_dict_set:
  "distinct (map fst (d @ xs)) \<Longrightarrow> foldl (\<lambda>d kv. dict_set d (fst kv) (snd kv)) d xs = d @ xs"
proof (induction xs arbitrary: d)
  case Nil
  show ?case by simp
next
  case (Cons x xs)
  from Cons.prems have "fst x \<notin> fst ` set d" by auto
  then have "dict_set d (fst x) (snd x) = d @ [x]"
    by (simp add: dict_set_fresh)
  moreover from Cons.prems have "distinct (map fst ((d @ [x]) @ xs))" by simp
  ultimately show ?case
    using Cons.IH [of "d @ [x]"] by simp
qed

lemma python_json_str_dict:
  assumes "distinct (map fst kvs)"
  shows "python_json (PDict (map (\<lambda>kv. (KStr (fst kv), PStr (snd kv))) kvs))
    = Some (PDict (map (\<lambda>kv. (KStr (fst kv), PStr (snd kv))) kvs))"
proof -
  have "map json_item (map (map_prod id json_dump) (map (\<lambda>kv. (KStr (fst kv), PStr (snd kv))) kvs))
      = map Some (map (\<lambda>kv. (fst kv, JStr (snd kv))) kvs)"
    by (simp add: json_item_def)
  then have d: "json_dump (PDict (map (\<lambda>kv. (KStr (fst kv), PStr (snd kv))) kvs))
      = Some (JObject (map (\<lambda>kv. (fst kv, JStr (snd kv))) kvs))"
    by (simp only: json_dump.simps those_map_Some option.map)
  have "map fst (map (\<lambda>kv. (KStr (fst kv), PStr (snd kv))) kvs) = map KStr (map fst kvs)"
    by simp
  with assms have "distinct (map fst (map (\<lambda>kv. (KStr (fst kv), PStr (snd kv))) kvs))"
    by (simp only: distinct_map) (auto simp: inj_on_def)
  then have i: "dict_of_items (map (\<lambda>kv. (KStr (fst kv), PStr (snd kv))) kvs)
      = map (\<lambda>kv. (KStr (fst kv), PStr (snd kv))) kvs"
    using foldl_dict_set [of "[]" "map (\<lambda>kv. (KStr (fst kv), PStr (snd kv))) kvs"]
    by (simp add: dict_of_items_def)
  have l: "json_load (JObject (map (\<lambda>kv. (fst kv, JStr (snd kv))) kvs))
      = PDict (dict_of_items (map (\<lambda>kv. (KStr (fst kv), PStr (snd kv))) kvs))"
    by (simp add: comp_def)
  show ?thesis
    unfolding python_json_def d by (simp only: option.map l i)
qed




text \<open>
  Claim C5, amended (failures of \<open>set\<close>). \<open>set\<close> never fails the call. Whenever the
  local write or the upload fails, a warning is printed and the remote tier is as
  before: a failure of the local write is caught like a failure of the upload. When
  the local file could not be opened the cache is as before; when the write broke off,
  \<open>get\<close> of the key returns nothing. After a failure of the upload alone, \<open>get\<close> of
  the key returns from the local tier what the reader makes of the written file when
  the extension of the key fits the payload, and nothing when it does not, whatever
  the state of the remote tier.
\<close>

theorem set_absorbs_failures:
  "call (cache_set cd fault c file_name data) = Returned () \<and>
   (fault \<noteq> No_Fault \<or> read_back cd data = None \<longrightarrow>
      warning (cache_set cd fault c file_name data) \<and>
      bucket (cache_after (cache_set cd fault c file_name data)) = bucket c) \<and>
   (fault = Local_Open_Fails \<longrightarrow> cache_after (cache_set cd fault c file_name data) = c) \<and>
   (fault = Local_Dump_Fails \<and> read_back cd data \<noteq> None \<longrightarrow>
      snd (cache_get remote (cache_after (cache_set cd fault c file_name data)) file_name)
        = Returned None) \<and>
   (fault = Upload_Fails \<and> read_back cd data = Some data' \<longrightarrow>
      snd (cache_get remote (cache_after (cache_set cd fault c file_name data)) file_name)
        = Returned (if extension_matches file_name data then Some data' else None))"
proof -
  have 1: "call (cache_set cd fault c file_name data) = Returned ()"
    by (simp add: cache_set_def Let_def split: option.splits)
  have 2: "warning (cache_set cd fault c file_name data) \<and>
      bucket (cache_after (cache_set cd fault c file_name data)) = bucket c"
    if "fault \<noteq> No_Fault \<or> read_back cd data = None"
    using that
    by (cases fault; cases data)
       (auto simp: cache_set_def Let_def read_back_None split: option.splits)
  have 3: "cache_after (cache_set cd fault c file_name data) = c" if "fault = Local_Open_Fails"
    using that by (simp add: cache_set_def Let_def)
  have 4: "snd (cache_get remote (cache_after (cache_set cd fault c file_name data)) file_name)
         = Returned None"
    if "fault = Local_Dump_Fails" and "read_back cd data \<noteq> None"
    using that
    by (auto simp: cache_set_def cache_get_def load_from_local_def Let_def read_back_None
        split: option.splits)
  have 5: "snd (cache_get remote (cache_after (cache_set cd fault c file_name data)) file_name)
         = Returned (if extension_matches file_name data then Some data' else None)"
    if "fault = Upload_Fails" and "read_back cd data = Some data'"
    using get_of_written [OF that(2) set_writes_local [OF _ that(2), of fault c file_name], of remote]
      that(1)
    by simp
  from 1 2 3 4 5 show ?thesis by blast
qed

theorem set_absorbs_failures_witness:
  "call (cache_set python_codec Upload_Fails empty_cache ''coin_history/bitcoin.parquet''
      (DataFrame small_frame)) = Returned () \<and>
   warning (cache_set python_codec Upload_Fails empty_cache ''coin_history/bitcoin.parquet''
      (DataFrame small_frame)) \<and>
   snd (cache_get Unreachable (cache_after (cache_set python_codec Upload_Fails empty_cache
      ''coin_history/bitcoin.parquet'' (DataFrame small_frame))) ''coin_history/bitcoin.parquet'')
     = Returned (Some (DataFrame small_frame))"
proof -
  have p: "extension_matches ''coin_history/bitcoin.parquet'' (DataFrame small_frame :: (frame, pyval) payload)"
    by (simp add: extension_matches_def endswith_def)
  have rp: "read_back python_codec (DataFrame small_frame) = Some (DataFrame small_frame)"
    by (simp add: read_back_def python_codec_def)
  from set_absorbs_failures [of python_codec Upload_Fails empty_cache
      "''coin_history/bitcoin.parquet''" "DataFrame small_frame" Unreachable "DataFrame small_frame"]
    p rp
  show ?thesis by simp
qed

text \<open>
  Claim C5 as stated fails: when the local write raises, \<open>set\<close> returns as if nothing
  had happened, the local tier does not hold the payload and \<open>get\<close> returns nothing.
\<close>

theorem local_failure_absorbed_counterexample:
  "call (cache_set python_codec Local_Open_Fails empty_cache ''coin_history/bitcoin.parquet''
      (DataFrame small_frame)) = Returned () \<and>
   local_files (cache_after (cache_set python_codec Local_Open_Fails empty_cache
      ''coin_history/bitcoin.parquet'' (DataFrame small_frame))) ''cache/coin_history/bitcoin.parquet''
     = None \<and>
   snd (cache_get Reachable (cache_after (cache_set python_codec Local_Open_Fails empty_cache
      ''coin_history/bitcoin.parquet'' (DataFrame small_frame))) ''coin_history/bitcoin.parquet'')
     = Returned None"
  by (simp add: cache_get_def cache_set_def empty_cache_def path_join_def load_from_local_def
      endswith_def serialize_def)

section \<open>Properties of the per-asset fetch\<close>

lemma cg_attempts_primary_only:
  "filter is_secondary (snd (cg_attempts w coin left attempt stored)) = []"
proof (induction left arbitrary: attempt stored)
  case 0
  show ?case by simp
next
  case (Suc left)
  show ?case
    using Suc [of "Suc attempt" stored] Suc [of "Suc attempt" "Some chart" for chart]
    by (simp add: split_beta split: reply.splits option.splits)
qed

lemma get_cg_market_data_primary_only:
  "filter is_secondary (snd (get_cg_market_data w coin)) = []"
  by (simp add: get_cg_market_data_def cg_attempts_primary_only)

lemma bucket_cache_get: "bucket (fst (cache_get remote c file_name)) = bucket c"
  by (simp add: cache_get_def Let_def split: option.splits)

lemma cache_get_no_blob: "bucket c file_name = None \<Longrightarrow> fst (cache_get remote c file_name) = c"
  by (simp add: cache_get_def Let_def)

lemma fetch_on_primary_failure:
  assumes "cache_get (gcs w) c (cache_key_of coin) = (c1, Returned None)"
    and "df_empty (process_market_data_to_df (fst (get_cg_market_data w coin)) coin ticker_map)"
  shows "fetch_and_cache_coin_history cd w coin ticker_map llama_protocol_map llama_chain_map c
    = \<lparr>returned = Returned (DataFrame empty_frame), cacher = c1,
       calls_made = snd (get_cg_market_data w coin), cache_writes = []\<rparr>"
  using assms by (simp add: fetch_and_cache_coin_history_def Let_def split_beta)

text \<open>
  Claim C6 (primary-failure gating). On a cache miss, when the market data fetched from
  CoinGecko under the retry policy gives an empty frame, the call returns the empty
  frame, has made no call to a secondary source, and calls \<open>set\<close> for no key: the cache
  is as the lookup left it, the remote tier is as before, and the whole cache is as
  before when the remote tier had no blob for the key.
\<close>

theorem primary_failure_gating:
  assumes miss: "snd (cache_get (gcs w) c (cache_key_of coin)) = Returned None"
    and fail: "df_empty (process_market_data_to_df (fst (get_cg_market_data w coin)) coin ticker_map)"
  shows "returned (fetch_and_cache_coin_history cd w coin ticker_map llama_protocol_map llama_chain_map c)
           = Returned (DataFrame empty_frame) \<and>
         filter is_secondary
           (calls_made (fetch_and_cache_coin_history cd w coin ticker_map llama_protocol_map llama_chain_map c))
           = [] \<and>
         cache_writes (fetch_and_cache_coin_history cd w coin ticker_map llama_protocol_map llama_chain_map c)
           = [] \<and>
         cacher (fetch_and_cache_coin_history cd w coin ticker_map llama_protocol_map llama_chain_map c)
           = fst (cache_get (gcs w) c (cache_key_of coin)) \<and>
         bucket (cacher (fetch_and_cache_coin_history cd w coin ticker_map llama_protocol_map llama_chain_map c))
           = bucket c \<and>
         (bucket c (cache_key_of coin) = None \<longrightarrow>
          cacher (fetch_and_cache_coin_history cd w coin ticker_map llama_protocol_map llama_chain_map c) = c)"
proof -
  obtain c1 where g: "cache_get (gcs w) c (cache_key_of coin) = (c1, Returned None)"
    using miss by (cases "cache_get (gcs w) c (cache_key_of coin)") simp
  have c1: "c1 = fst (cache_get (gcs w) c (cache_key_of coin))"
    by (simp add: g)
  show ?thesis
    unfolding fetch_on_primary_failure [OF g fail]
    using bucket_cache_get [of "gcs w" c "cache_key_of coin"]
      cache_get_no_blob [of c "cache_key_of coin" "gcs w"]
    by (simp add: get_cg_market_data_primary_only c1)
qed

lemma get_cg_market_data_exhausted:
  assumes "\<And>n. market_chart_reply w coin n = Error_429"
  shows "get_cg_market_data w coin = (None, replicate 3 (CoinGecko_market_chart coin))"
proof -
  have "cg_attempts w coin left attempt stored = (None, replicate left (CoinGecko_market_chart coin))"
    for left attempt stored
    by (induction left arbitrary: attempt) (simp_all add: assms)
  then show ?thesis
    by (simp add: get_cg_market_data_def max_retries_def)
qed

theorem primary_failure_gating_witness:
  "returned (fetch_and_cache_coin_history python_codec rate_limited_world ''bitcoin'' btc_maps btc_maps btc_maps
      no_history_cache) = Returned (DataFrame empty_frame) \<and>
   calls_made (fetch_and_cache_coin_history python_codec rate_limited_world ''bitcoin'' btc_maps btc_maps btc_maps
      no_history_cache) = replicate 3 (CoinGecko_market_chart ''bitcoin'') \<and>
   cache_writes (fetch_and_cache_coin_history python_codec rate_limited_world ''bitcoin'' btc_maps btc_maps btc_maps
      no_history_cache) = [] \<and>
   cacher (fetch_and_cache_coin_history python_codec rate_limited_world ''bitcoin'' btc_maps btc_maps btc_maps
      no_history_cache) = no_history_cache"
proof -
  have miss: "snd (cache_get (gcs rate_limited_world) no_history_cache (cache_key_of ''bitcoin''))
      = Returned None"
    by (simp add: cache_get_def no_history_cache_def rate_limited_world_def Let_def)
  have cg: "get_cg_market_data rate_limited_world ''bitcoin''
      = (None, replicate 3 (CoinGecko_market_chart ''bitcoin''))"
    by (rule get_cg_market_data_exhausted) (simp add: rate_limited_world_def)
  have fail: "df_empty (process_market_data_to_df (fst (get_cg_market_data rate_limited_world ''bitcoin''))
      ''bitcoin'' btc_maps)"
    by (simp add: cg process_market_data_to_df_def df_empty_def empty_frame_def)
  have calls: "calls_made (fetch_and_cache_coin_history python_codec rate_limited_world ''bitcoin'' btc_maps btc_maps
      btc_maps no_history_cache) = replicate 3 (CoinGecko_market_chart ''bitcoin'')"
    using miss fail
    by (cases "cache_get (gcs rate_limited_world) no_history_cache (cache_key_of ''bitcoin'')")
       (simp add: fetch_and_cache_coin_history_def Let_def split_beta cg)
  have nb: "bucket no_history_cache (cache_key_of ''bitcoin'') = None"
    by (simp add: no_history_cache_def)
  from primary_failure_gating [OF miss fail, of python_codec btc_maps btc_maps] calls
  show ?thesis by (simp add: cache_get_no_blob [OF nb])
qed

lemma columns_merge_left:
  assumes "set (columns l) \<inter> set (columns r) \<subseteq> set keys"
  shows "columns (merge_left keys l r) = columns l @ filter (\<lambda>c. c \<notin> set keys) (columns r)"
proof -
  have l: "map (\<lambda>c. if c \<notin> set keys \<and> c \<in> set (columns l) \<and> c \<in> set (columns r) then c @ ''_x'' else c)
      (columns l) = columns l"
    using assms by (intro map_idI) auto
  have r: "map (\<lambda>c. if c \<notin> set keys \<and> c \<in> set (columns l) \<and> c \<in> set (columns r) then c @ ''_y'' else c)
      (filter (\<lambda>c. c \<notin> set keys) (columns r)) = filter (\<lambda>c. c \<notin> set keys) (columns r)"
    using assms by (intro map_idI) auto
  show ?thesis
    by (simp add: merge_left_def Let_def l r)
qed

lemma columns_select: "columns (select cols df) = cols"
  by (simp add: select_def)

lemma merge_chain_columns:
  assumes "set (columns f) \<subseteq> set final_cols"
  shows "columns (merge_left [''date'', ''coin_id''] f (select [''date'', ''coin_id'', ''chain_tvl''] ch))
    = columns f @ [''chain_tvl'']"
proof -
  have "''chain_tvl'' \<notin> set (columns f)"
    using assms by (auto simp: final_cols_def)
  then show ?thesis
    by (subst columns_merge_left) (auto simp: columns_select)
qed

lemma merge_protocol_columns:
  assumes "set (columns f) \<subseteq> set final_cols \<union> {''chain_tvl''}"
  shows "columns (merge_left [''date'', ''coin_id''] f
      (select ([''date'', ''coin_id''] @ [''protocol_tvl'', ''dex_volume'']) p))
    = columns f @ [''protocol_tvl'', ''dex_volume'']"
proof -
  have "''protocol_tvl'' \<notin> set (columns f)" and "''dex_volume'' \<notin> set (columns f)"
    using assms by (auto simp: final_cols_def)
  then show ?thesis
    by (subst columns_merge_left) (auto simp: columns_select)
qed

lemma merge_lunarcrush_columns:
  assumes "set (columns f) \<subseteq> set final_cols \<union> {''chain_tvl'', ''protocol_tvl'', ''dex_volume''}"
    and "columns l = ''date'' # ''coin_id'' # lcs" and "set lcs \<subseteq> set lc_metrics"
  shows "columns (merge_left [''date'', ''coin_id''] f l) = columns f @ lcs"
proof -
  have d: "set (columns f) \<inter> set lc_metrics = {}"
    using assms(1) by (auto simp: final_cols_def lc_metrics_def)
  have k: "''date'' \<notin> set lcs" "''coin_id'' \<notin> set lcs"
    using assms(3) by (auto simp: lc_metrics_def)
  have "filter (\<lambda>c. c \<notin> set [''date'', ''coin_id'']) (columns l) = lcs"
    using k by (simp add: assms(2)) (rule filter_True, auto)
  moreover have "set (columns f) \<inter> set (columns l) \<subseteq> set [''date'', ''coin_id'']"
    using d assms(3) by (auto simp: assms(2))
  ultimately show ?thesis
    by (simp only: columns_merge_left)
qed

lemma columns_merge_sources:
  assumes prim: "set (columns f) \<subseteq> set final_cols"
    and prot: "\<not> df_empty p \<Longrightarrow> ''protocol_tvl'' \<in> set (columns p) \<and> ''dex_volume'' \<in> set (columns p)"
    and lun: "\<not> df_empty l \<Longrightarrow> columns l = ''date'' # ''coin_id'' # lcs \<and> set lcs \<subseteq> set lc_metrics"
  shows "columns (merge_sources f ch p l)
    = columns f @ (if df_empty ch then [] else [''chain_tvl''])
        @ (if df_empty p then [] else [''protocol_tvl'', ''dex_volume''])
        @ (if df_empty l then [] else lcs)"
proof -
  define df1 where "df1 = (if \<not> df_empty ch
      then merge_left [''date'', ''coin_id''] f (select [''date'', ''coin_id'', ''chain_tvl''] ch)
      else f)"
  define df2 where "df2 = (if \<not> df_empty p
      then merge_left [''date'', ''coin_id''] df1
             (select ([''date'', ''coin_id''] @ [''protocol_tvl'', ''dex_volume'']) p)
      else df1)"
  have ms: "merge_sources f ch p l
      = (if \<not> df_empty l then merge_left [''date'', ''coin_id''] df2 l else df2)"
  proof (cases "df_empty p")
    case True
    then show ?thesis
      unfolding merge_sources_def df1_def df2_def Let_def by simp
  next
    case False
    from prot [OF False]
    have "''protocol_tvl'' \<in> set (columns p)" and "''dex_volume'' \<in> set (columns p)"
      by simp_all
    with False show ?thesis
      unfolding merge_sources_def df1_def df2_def Let_def by simp
  qed
  have c1: "columns df1 = columns f @ (if df_empty ch then [] else [''chain_tvl''])"
    unfolding df1_def using merge_chain_columns [OF prim] by simp
  have s1: "set (columns df1) \<subseteq> set final_cols \<union> {''chain_tvl''}"
    unfolding c1 using prim by auto
  have c2: "columns df2 = columns df1 @ (if df_empty p then [] else [''protocol_tvl'', ''dex_volume''])"
    unfolding df2_def using merge_protocol_columns [OF s1] by simp
  have s2: "set (columns df2) \<subseteq> set final_cols \<union> {''chain_tvl'', ''protocol_tvl'', ''dex_volume''}"
    unfolding c2 using s1 by auto
  have c3: "columns (merge_sources f ch p l) = columns df2 @ (if df_empty l then [] else lcs)"
  proof (cases "df_empty l")
    case True
    then show ?thesis by (simp add: ms)
  next
    case False
    from lun [OF False] merge_lunarcrush_columns [OF s2, of l lcs] False
    show ?thesis by (simp add: ms)
  qed
  show ?thesis
    by (simp add: c3 c2 c1)
qed

lemma columns_assign:
  "columns (assign c f df) = (if c \<in> set (columns df) then columns df else columns df @ [c])"
  by (simp add: assign_def)

lemma rows_assign_Nil: "rows (assign c f df) = [] \<longleftrightarrow> rows df = []"
  by (simp add: assign_def)

lemma df_empty_assign: "df_empty (assign c f df) \<longleftrightarrow> rows df = []"
  by (auto simp: df_empty_def rows_assign_Nil columns_assign)

lemma df_empty_empty_frame: "df_empty empty_frame"
  by (simp add: df_empty_def empty_frame_def)

lemma fetch_chain_tvl_empty:
  "df_empty (fst (fetch_chain_tvl w coin ticker_map llama_chain_map))
     \<longleftrightarrow> \<not> chain_returned w coin llama_chain_map"
  by (simp add: fetch_chain_tvl_def chain_returned_def df_empty_empty_frame df_empty_assign
      rows_assign_Nil dated_frame_def split: option.splits)

lemma merge_outer_on_date_not_Nil:
  assumes "left \<noteq> []"
  shows "merge_outer_on_date left right \<noteq> []"
proof -
  from assms obtain x xs where left: "left = x # xs" by (cases left) auto
  let ?block = "\<lambda>d. (let ls = filter (\<lambda>x. fst x = d) left; rs = filter (\<lambda>x. fst x = d) right
         in if rs = [] then map (\<lambda>l. (d, snd l, NaN)) ls
            else if ls = [] then map (\<lambda>r. (d, NaN, snd r)) rs
            else concat (map (\<lambda>l. map (\<lambda>r. (d, snd l, snd r)) rs) ls))"
  have ls: "filter (\<lambda>y. fst y = fst x) left \<noteq> []"
    by (simp add: left)
  have "?block (fst x) \<noteq> []"
  proof (cases "filter (\<lambda>y. fst y = fst x) right = []")
    case True
    with ls show ?thesis by (simp add: Let_def)
  next
    case False
    then obtain r rs where r: "filter (\<lambda>y. fst y = fst x) right = r # rs"
      by (cases "filter (\<lambda>y. fst y = fst x) right") auto
    obtain l ls' where l: "filter (\<lambda>y. fst y = fst x) left = l # ls'"
      using ls by (cases "filter (\<lambda>y. fst y = fst x) left") auto
    show ?thesis by (simp add: Let_def r l)
  qed
  moreover have "fst x \<in> set (sort_key date_sort_key (remdups (map fst left @ map fst right)))"
    by (simp add: left)
  ultimately have "\<exists>d \<in> set (sort_key date_sort_key (remdups (map fst left @ map fst right))).
      ?block d \<noteq> []"
    by blast
  then show ?thesis
    unfolding merge_outer_on_date_def by (simp only: concat_eq_Nil_conv set_map) blast
qed

lemma protocol_frame:
  "(df_empty (fst (get_and_process_protocol_data w slug coin ticker_map))
      \<longleftrightarrow> llama_protocol_tvl w slug = [] \<and> llama_dex_volume w slug = []) \<and>
   (\<not> df_empty (fst (get_and_process_protocol_data w slug coin ticker_map)) \<longrightarrow>
      ''protocol_tvl'' \<in> set (columns (fst (get_and_process_protocol_data w slug coin ticker_map))) \<and>
      ''dex_volume'' \<in> set (columns (fst (get_and_process_protocol_data w slug coin ticker_map))))"
proof (cases "llama_protocol_tvl w slug = []")
  case True
  then show ?thesis
    by (simp add: get_and_process_protocol_data_def Let_def df_empty_empty_frame df_empty_assign
        rows_assign_Nil columns_assign dated_frame_def)
next
  case False
  note tvl = this
  show ?thesis
  proof (cases "llama_dex_volume w slug = []")
    case True
    with tvl show ?thesis
      by (simp add: get_and_process_protocol_data_def Let_def df_empty_assign
          rows_assign_Nil columns_assign dated_frame_def)
  next
    case False
    with tvl merge_outer_on_date_not_Nil [OF tvl, of "llama_dex_volume w slug"] show ?thesis
      by (simp add: get_and_process_protocol_data_def Let_def df_empty_assign
          rows_assign_Nil columns_assign)
  qed
qed

lemma fetch_protocol_data_frame:
  "(df_empty (fst (fetch_protocol_data w coin ticker_map llama_protocol_map))
      \<longleftrightarrow> \<not> protocol_returned w coin llama_protocol_map) \<and>
   (\<not> df_empty (fst (fetch_protocol_data w coin ticker_map llama_protocol_map)) \<longrightarrow>
      ''protocol_tvl'' \<in> set (columns (fst (fetch_protocol_data w coin ticker_map llama_protocol_map))) \<and>
      ''dex_volume'' \<in> set (columns (fst (fetch_protocol_data w coin ticker_map llama_protocol_map))))"
proof (cases "llama_protocol_map coin")
  case None
  then show ?thesis
    by (simp add: fetch_protocol_data_def protocol_returned_def df_empty_empty_frame)
next
  case (Some slug)
  show ?thesis
  proof (cases "slug = []")
    case True
    with Some show ?thesis
      by (simp add: fetch_protocol_data_def protocol_returned_def df_empty_empty_frame)
  next
    case False
    with Some protocol_frame [of w slug coin ticker_map] show ?thesis
      by (simp add: fetch_protocol_data_def protocol_returned_def)
  qed
qed

lemma set_social_columns: "set (social_columns w ticker) \<subseteq> set lc_metrics"
  by (auto simp: social_columns_def)

lemma lunarcrush_frame:
  "(df_empty (fst (get_and_process_lunarcrush_data w ticker coin)) \<longrightarrow> social_columns w ticker = []) \<and>
   (\<not> df_empty (fst (get_and_process_lunarcrush_data w ticker coin)) \<longrightarrow>
      columns (fst (get_and_process_lunarcrush_data w ticker coin))
        = ''date'' # ''coin_id'' # social_columns w ticker)"
proof (cases "ticker = [] \<or> rows (lunarcrush_series w ticker) = [] \<or>
    ''date'' \<notin> set (columns (lunarcrush_series w ticker))")
  case True
  then show ?thesis
    by (auto simp: get_and_process_lunarcrush_data_def social_columns_def Let_def
        df_empty_empty_frame)
next
  case False
  let ?s = "lunarcrush_series w ticker"
  let ?dated = "assign ''date'' (\<lambda>r. normalize (get_cell (columns ?s) r ''date'')) ?s"
  let ?df = "assign ''coin_id'' (\<lambda>r. Str coin) ?dated"
  have res: "fst (get_and_process_lunarcrush_data w ticker coin)
      = select (filter (\<lambda>c. c \<in> set (columns ?df)) lunarcrush_required_cols) ?df"
    using False by (simp add: get_and_process_lunarcrush_data_def Let_def)
  have d: "columns ?dated = columns ?s"
    using False by (simp add: columns_assign)
  have m: "filter (\<lambda>c. c \<in> set (columns ?df)) lc_metrics = filter (\<lambda>c. c \<in> set (columns ?s)) lc_metrics"
    by (rule filter_cong) (auto simp: columns_assign d lc_metrics_def)
  have "filter (\<lambda>c. c \<in> set (columns ?df)) lunarcrush_required_cols
      = ''date'' # ''coin_id'' # filter (\<lambda>c. c \<in> set (columns ?df)) lc_metrics"
    using False by (simp add: lunarcrush_required_cols_def lc_metrics_def columns_assign d)
  then have cols: "columns (fst (get_and_process_lunarcrush_data w ticker coin))
      = ''date'' # ''coin_id'' # social_columns w ticker"
    using False by (simp add: res select_def m social_columns_def)
  have "rows (fst (get_and_process_lunarcrush_data w ticker coin)) \<noteq> []"
    using False by (simp add: res select_def rows_assign_Nil)
  with cols show ?thesis by (simp add: df_empty_def)
qed

lemma columns_timestamp_frame: "columns (timestamp_frame c xs) = [''timestamp'', c]"
  by (simp add: timestamp_frame_def)

lemma columns_primary:
  "columns (process_market_data_to_df raw coin ticker_map) = [] \<or>
   columns (process_market_data_to_df raw coin ticker_map)
     = (if ohlc_returned raw then final_cols else short_cols)"
proof (cases raw)
  case None
  then show ?thesis by (simp add: process_market_data_to_df_def empty_frame_def)
next
  case (Some rw)
  show ?thesis
  proof (cases "price_mcap_vol rw")
    case None
    with Some show ?thesis by (simp add: process_market_data_to_df_def empty_frame_def)
  next
    case (Some chart)
    note chart = this
    show ?thesis
    proof (cases "prices chart = []")
      case True
      with \<open>raw = Some rw\<close> chart show ?thesis
        by (simp add: process_market_data_to_df_def empty_frame_def)
    next
      case False
      define df1 where "df1 = merge_left [''timestamp''] (timestamp_frame ''close'' (prices chart))
        (timestamp_frame ''volume'' (total_volumes chart))"
      define df2 where "df2 = merge_left [''timestamp''] df1 (timestamp_frame ''market_cap'' (market_caps chart))"
      define df3 where "df3 = assign ''date'' (\<lambda>r. normalize (get_cell (columns df2) r ''timestamp'')) df2"
      define df_ohlc where "df_ohlc = (\<lambda>candles :: ohlc_data. \<lparr>columns = [''date'', ''open'', ''high'', ''low''],
          rows = map (\<lambda>((d, ms), op, hi, lo, cl). [Time d 0, op, hi, lo]) candles\<rparr>)"
      define df4 where "df4 = (case ohlc rw of None \<Rightarrow> df3
          | Some candles \<Rightarrow> if candles = [] then df3 else merge_left [''date''] df3 (df_ohlc candles))"
      define df5 where "df5 = assign ''coin_id'' (\<lambda>r. Str coin) df4"
      define df6 where "df6 = assign ''ticker'' (\<lambda>r. ticker_cell ticker_map coin) df5"
      have res: "process_market_data_to_df raw coin ticker_map
          = select (filter (\<lambda>c. c \<in> set (columns df6)) final_cols) df6"
        using \<open>raw = Some rw\<close> chart False
        unfolding process_market_data_to_df_def df1_def df2_def df3_def df4_def df5_def df6_def
          df_ohlc_def Let_def
        by simp
      have c1: "columns df1 = [''timestamp'', ''close'', ''volume'']"
        unfolding df1_def by (subst columns_merge_left) (simp_all add: columns_timestamp_frame)
      have c2: "columns df2 = [''timestamp'', ''close'', ''volume'', ''market_cap'']"
        unfolding df2_def by (subst columns_merge_left) (simp_all add: columns_timestamp_frame c1)
      have c3: "columns df3 = [''timestamp'', ''close'', ''volume'', ''market_cap'', ''date'']"
        unfolding df3_def by (simp add: columns_assign c2)
      have c4: "columns df4
          = columns df3 @ (if ohlc_returned raw then [''open'', ''high'', ''low''] else [])"
      proof (cases "ohlc rw")
        case None
        with \<open>raw = Some rw\<close> show ?thesis by (simp add: df4_def ohlc_returned_def)
      next
        case (Some candles)
        have "columns (merge_left [''date''] df3 (df_ohlc candles))
            = columns df3 @ [''open'', ''high'', ''low'']"
          by (subst columns_merge_left) (simp_all add: c3 df_ohlc_def)
        with Some \<open>raw = Some rw\<close> show ?thesis by (simp add: df4_def ohlc_returned_def)
      qed
      have c6: "columns df6
          = columns df3 @ (if ohlc_returned raw then [''open'', ''high'', ''low''] else [])
              @ [''coin_id'', ''ticker'']"
        unfolding df6_def df5_def by (simp add: columns_assign c4 c3)
      have "filter (\<lambda>c. c \<in> set (columns df6)) final_cols
          = (if ohlc_returned raw then final_cols else short_cols)"
        by (simp add: c6 c3 final_cols_def short_cols_def)
      then show ?thesis
        unfolding res columns_select by simp
    qed
  qed
qed

lemma rows_process_market_data_to_df:
  "\<forall>r\<in>set (rows (process_market_data_to_df raw coin ticker_map)).
     length r = length (columns (process_market_data_to_df raw coin ticker_map))"
  by (simp add: process_market_data_to_df_def select_def empty_frame_def Let_def
      split: option.splits)

lemma get_cell_append:
  assumes "length a = length c"
  shows "get_cell (a @ b) (c @ d) k = (if k \<in> set a then get_cell a c k else get_cell b d k)"
proof -
  have z: "zip (a @ b) (c @ d) = zip a c @ zip b d"
    using assms by simp
  have "map fst (zip a c) = a"
    using assms by (rule map_fst_zip)
  then have "fst ` set (zip a c) = set a"
    by (metis set_map)
  then have dom: "map_of (zip a c) k = None \<longleftrightarrow> k \<notin> set a"
    by (simp add: map_of_eq_None_iff)
  show ?thesis
  proof (cases "map_of (zip a c) k")
    case None
    with dom show ?thesis by (simp add: get_cell_def z map_add_def)
  next
    case (Some v)
    with dom have "k \<in> set a" by auto
    with Some show ?thesis by (simp add: get_cell_def z map_add_def)
  qed
qed

lemma get_cell_map: "k \<in> set cols \<Longrightarrow> get_cell cols (map f cols) k = f k"
  by (simp add: get_cell_def map_of_zip_map)

lemma get_cell_replicate: "get_cell cols (replicate n NaN) k = NaN"
proof (cases "map_of (zip cols (replicate n NaN)) k")
  case None
  then show ?thesis by (simp add: get_cell_def)
next
  case (Some v)
  then have "(k, v) \<in> set (zip cols (replicate n NaN))"
    by (rule map_of_SomeD)
  then have "v \<in> set (replicate n NaN)"
    by (rule set_zip_rightD)
  then have "v = NaN" by auto
  with Some show ?thesis by (simp add: get_cell_def)
qed

lemma in_concat_map: "r \<in> set (concat (map F xs)) \<Longrightarrow> \<exists>x\<in>set xs. r \<in> set (F x)"
  by auto

text \<open>A row of a left merge is a left row, followed by NaN or by the cells of a right row.\<close>

lemma rows_merge_left:
  assumes "r \<in> set (rows (merge_left keys l rt))"
  shows "\<exists>l0 \<in> set (rows l).
     r = l0 @ replicate (length (filter (\<lambda>c. c \<notin> set keys) (columns rt))) NaN \<or>
     (\<exists>r0 \<in> set (rows rt).
        r = l0 @ map (get_cell (columns rt) r0) (filter (\<lambda>c. c \<notin> set keys) (columns rt)))"
proof -
  let ?rc = "filter (\<lambda>c. c \<notin> set keys) (columns rt)"
  let ?m = "\<lambda>l0. filter (\<lambda>r. map (get_cell (columns rt) r) keys = map (get_cell (columns l) l0) keys)
      (rows rt)"
  let ?F = "\<lambda>l0. if ?m l0 = [] then [l0 @ replicate (length ?rc) NaN]
      else map (\<lambda>r. l0 @ map (get_cell (columns rt) r) ?rc) (?m l0)"
  have "rows (merge_left keys l rt) = concat (map ?F (rows l))"
    by (simp add: merge_left_def Let_def)
  with assms have "r \<in> set (concat (map ?F (rows l)))"
    by (simp only:)
  from in_concat_map [of r ?F "rows l", OF this]
  obtain l0 where l0: "l0 \<in> set (rows l)" and r: "r \<in> set (?F l0)"
    by (rule bexE)
  show ?thesis
  proof (cases "?m l0 = []")
    case True
    with r have "r = l0 @ replicate (length ?rc) NaN" by simp
    with l0 show ?thesis by blast
  next
    case False
    with r have "r \<in> (\<lambda>r. l0 @ map (get_cell (columns rt) r) ?rc) ` set (?m l0)"
      by simp
    then obtain r0 where "r0 \<in> set (?m l0)" and "r = l0 @ map (get_cell (columns rt) r0) ?rc"
      by (rule imageE)
    moreover from this have "r0 \<in> set (rows rt)" by simp
    ultimately show ?thesis using l0 by blast
  qed
qed

lemma length_rows_merge_left:
  assumes wf: "\<forall>r\<in>set (rows l). length r = length (columns l)"
  shows "\<forall>r\<in>set (rows (merge_left keys l rt)). length r = length (columns (merge_left keys l rt))"
proof
  fix r
  assume "r \<in> set (rows (merge_left keys l rt))"
  from rows_merge_left [OF this] obtain l0 e where "l0 \<in> set (rows l)" and "r = l0 @ e"
    and "length e = length (filter (\<lambda>c. c \<notin> set keys) (columns rt))"
    by auto
  with wf show "length r = length (columns (merge_left keys l rt))"
    by (simp add: merge_left_def Let_def)
qed

text \<open>A column of NaN of the right frame is a column of NaN of the left merge.\<close>

lemma all_nan_merge_left_right:
  assumes wf: "\<forall>r\<in>set (rows l). length r = length (columns l)"
    and sh: "set (columns l) \<inter> set (columns rt) \<subseteq> set keys"
    and c: "c \<in> set (columns rt)" "c \<notin> set keys"
    and nan: "\<forall>r0\<in>set (rows rt). get_cell (columns rt) r0 c = NaN"
  shows "all_nan c (merge_left keys l rt)"
proof -
  let ?rc = "filter (\<lambda>c. c \<notin> set keys) (columns rt)"
  have cols: "columns (merge_left keys l rt) = columns l @ ?rc"
    using sh by (rule columns_merge_left)
  have cl: "c \<notin> set (columns l)" and cr: "c \<in> set ?rc"
    using sh c by auto
  have "get_cell (columns l @ ?rc) r c = NaN" if "r \<in> set (rows (merge_left keys l rt))" for r
  proof -
    from rows_merge_left [OF that] obtain l0 where l0: "l0 \<in> set (rows l)"
      and r: "r = l0 @ replicate (length ?rc) NaN \<or>
        (\<exists>r0 \<in> set (rows rt). r = l0 @ map (get_cell (columns rt) r0) ?rc)"
      by blast
    from wf l0 have len: "length (columns l) = length l0" by simp
    from r show ?thesis
    proof
      assume "r = l0 @ replicate (length ?rc) NaN"
      then show ?thesis
        using cl by (simp add: get_cell_append [OF len] get_cell_replicate)
    next
      assume "\<exists>r0 \<in> set (rows rt). r = l0 @ map (get_cell (columns rt) r0) ?rc"
      then obtain r0 where "r0 \<in> set (rows rt)" and "r = l0 @ map (get_cell (columns rt) r0) ?rc"
        by blast
      then show ?thesis
        using cl nan by (simp add: get_cell_append [OF len] get_cell_map [OF cr])
    qed
  qed
  then show ?thesis
    using cr by (simp add: all_nan_def cols list_all_iff)
qed

text \<open>A column of NaN of the left frame stays one in the left merge.\<close>

lemma all_nan_merge_left_left:
  assumes wf: "\<forall>r\<in>set (rows l). length r = length (columns l)"
    and sh: "set (columns l) \<inter> set (columns rt) \<subseteq> set keys"
    and nan: "all_nan c l"
  shows "all_nan c (merge_left keys l rt)"
proof -
  let ?rc = "filter (\<lambda>c. c \<notin> set keys) (columns rt)"
  have cols: "columns (merge_left keys l rt) = columns l @ ?rc"
    using sh by (rule columns_merge_left)
  have cl: "c \<in> set (columns l)"
    using nan by (simp add: all_nan_def)
  have "get_cell (columns l @ ?rc) r c = NaN" if "r \<in> set (rows (merge_left keys l rt))" for r
  proof -
    from rows_merge_left [OF that] obtain l0 e where l0: "l0 \<in> set (rows l)" and r: "r = l0 @ e"
      by blast
    from wf l0 have len: "length (columns l) = length l0" by simp
    from nan l0 have "get_cell (columns l) l0 c = NaN"
      by (simp add: all_nan_def list_all_iff)
    then show ?thesis
      using cl by (simp add: r get_cell_append [OF len])
  qed
  then show ?thesis
    using cl by (simp add: all_nan_def cols list_all_iff)
qed

lemma get_cell_select:
  assumes "r \<in> set (rows (select cols df))" and "c \<in> set cols"
  shows "\<exists>r0\<in>set (rows df). get_cell cols r c = get_cell (columns df) r0 c"
  using assms by (auto simp: select_def get_cell_map)

text \<open>
  The protocol columns in the merged frame: a protocol column that holds NaN in every row
  of the protocol frame is a column of NaN of the merged frame.
\<close>

lemma all_nan_merge_sources:
  assumes prim: "set (columns f) \<subseteq> set final_cols"
    and wf: "\<forall>r\<in>set (rows f). length r = length (columns f)"
    and ne: "\<not> df_empty p"
    and prot: "''protocol_tvl'' \<in> set (columns p)" "''dex_volume'' \<in> set (columns p)"
    and lun: "\<not> df_empty l \<Longrightarrow> columns l = ''date'' # ''coin_id'' # lcs \<and> set lcs \<subseteq> set lc_metrics"
    and c: "c = ''protocol_tvl'' \<or> c = ''dex_volume''"
    and nan: "\<forall>r\<in>set (rows p). get_cell (columns p) r c = NaN"
  shows "all_nan c (merge_sources f ch p l)"
proof -
  define sel where "sel = select ([''date'', ''coin_id''] @ [''protocol_tvl'', ''dex_volume'']) p"
  define df1 where "df1 = (if \<not> df_empty ch
      then merge_left [''date'', ''coin_id''] f (select [''date'', ''coin_id'', ''chain_tvl''] ch)
      else f)"
  define df2 where "df2 = merge_left [''date'', ''coin_id''] df1 sel"
  have ms: "merge_sources f ch p l
      = (if \<not> df_empty l then merge_left [''date'', ''coin_id''] df2 l else df2)"
    using ne prot unfolding merge_sources_def df1_def df2_def sel_def Let_def by simp
  have c1: "columns df1 = columns f @ (if df_empty ch then [] else [''chain_tvl''])"
    unfolding df1_def using merge_chain_columns [OF prim] by simp
  have wf1: "\<forall>r\<in>set (rows df1). length r = length (columns df1)"
    unfolding df1_def using wf length_rows_merge_left [OF wf] by simp
  have s1: "set (columns df1) \<subseteq> set final_cols \<union> {''chain_tvl''}"
    unfolding c1 using prim by auto
  have cs: "columns sel = [''date'', ''coin_id'', ''protocol_tvl'', ''dex_volume'']"
    by (simp add: sel_def columns_select)
  have sh2: "set (columns df1) \<inter> set (columns sel) \<subseteq> set [''date'', ''coin_id'']"
    using s1 by (auto simp: cs final_cols_def)
  have csel: "c \<in> set (columns sel)" and ck: "c \<notin> set [''date'', ''coin_id'']"
    using c by (auto simp: cs)
  have nsel: "\<forall>r0\<in>set (rows sel). get_cell (columns sel) r0 c = NaN"
  proof
    fix r0
    assume "r0 \<in> set (rows sel)"
    then have "r0 \<in> set (rows (select (columns sel) p))"
      by (simp add: cs) (simp add: sel_def)
    from get_cell_select [OF this csel] nan show "get_cell (columns sel) r0 c = NaN"
      by auto
  qed
  have a2: "all_nan c df2"
    unfolding df2_def using wf1 sh2 csel ck nsel by (rule all_nan_merge_left_right)
  have wf2: "\<forall>r\<in>set (rows df2). length r = length (columns df2)"
    unfolding df2_def using wf1 by (rule length_rows_merge_left)
  have c2: "columns df2 = columns df1 @ [''protocol_tvl'', ''dex_volume'']"
    unfolding df2_def sel_def using merge_protocol_columns [OF s1] by simp
  have s2: "set (columns df2) \<subseteq> set final_cols \<union> {''chain_tvl'', ''protocol_tvl'', ''dex_volume''}"
    unfolding c2 using s1 by auto
  show ?thesis
  proof (cases "df_empty l")
    case True
    with a2 show ?thesis by (simp add: ms)
  next
    case False
    from lun [OF False] have cl: "columns l = ''date'' # ''coin_id'' # lcs"
      and lcs: "set lcs \<subseteq> set lc_metrics"
      by simp_all
    have "set (columns df2) \<inter> set (columns l) \<subseteq> set [''date'', ''coin_id'']"
      using s2 lcs by (auto simp: cl final_cols_def lc_metrics_def)
    with wf2 have "all_nan c (merge_left [''date'', ''coin_id''] df2 l)"
      using a2 by (rule all_nan_merge_left_left)
    with False show ?thesis by (simp add: ms)
  qed
qed

text \<open>The protocol frame when one of the two protocol sources returned no rows.\<close>

lemma protocol_tvl_filled:
  assumes "llama_protocol_tvl w slug = []" and "llama_dex_volume w slug \<noteq> []"
  shows "\<forall>r\<in>set (rows (fst (get_and_process_protocol_data w slug coin ticker_map))).
     get_cell (columns (fst (get_and_process_protocol_data w slug coin ticker_map))) r ''protocol_tvl''
       = NaN"
  using assms
  by (auto simp: get_and_process_protocol_data_def Let_def assign_def dated_frame_def get_cell_def)

lemma dex_volume_filled:
  assumes "llama_protocol_tvl w slug \<noteq> []" and "llama_dex_volume w slug = []"
  shows "\<forall>r\<in>set (rows (fst (get_and_process_protocol_data w slug coin ticker_map))).
     get_cell (columns (fst (get_and_process_protocol_data w slug coin ticker_map))) r ''dex_volume''
       = NaN"
  using assms
  by (auto simp: get_and_process_protocol_data_def Let_def assign_def dated_frame_def get_cell_def)

lemma fetch_protocol_data_filled:
  "(only_dex_returned w coin llama_protocol_map \<longrightarrow>
      (\<forall>r\<in>set (rows (fst (fetch_protocol_data w coin ticker_map llama_protocol_map))).
         get_cell (columns (fst (fetch_protocol_data w coin ticker_map llama_protocol_map))) r
           ''protocol_tvl'' = NaN)) \<and>
   (only_tvl_returned w coin llama_protocol_map \<longrightarrow>
      (\<forall>r\<in>set (rows (fst (fetch_protocol_data w coin ticker_map llama_protocol_map))).
         get_cell (columns (fst (fetch_protocol_data w coin ticker_map llama_protocol_map))) r
           ''dex_volume'' = NaN))"
proof (cases "llama_protocol_map coin")
  case None
  then show ?thesis by (simp add: only_dex_returned_def only_tvl_returned_def)
next
  case (Some slug)
  show ?thesis
  proof (cases "slug = []")
    case True
    with Some show ?thesis by (simp add: only_dex_returned_def only_tvl_returned_def)
  next
    case False
    with Some protocol_tvl_filled [of w slug coin ticker_map]
      dex_volume_filled [of w slug coin ticker_map]
    show ?thesis
      by (simp add: only_dex_returned_def only_tvl_returned_def fetch_protocol_data_def)
  qed
qed

lemma only_one_returned:
  "only_dex_returned w coin llama_protocol_map \<or> only_tvl_returned w coin llama_protocol_map
     \<Longrightarrow> protocol_returned w coin llama_protocol_map"
  by (auto simp: only_dex_returned_def only_tvl_returned_def protocol_returned_def
      split: option.splits)

lemma returned_on_primary_success:
  assumes "cache_get (gcs w) c (cache_key_of coin) = (c1, Returned None)"
    and "\<not> df_empty (process_market_data_to_df (fst (get_cg_market_data w coin)) coin ticker_map)"
  shows "returned (fetch_and_cache_coin_history cd w coin ticker_map llama_protocol_map llama_chain_map c)
    = Returned (DataFrame (merge_sources
        (process_market_data_to_df (fst (get_cg_market_data w coin)) coin ticker_map)
        (fst (fetch_chain_tvl w coin ticker_map llama_chain_map))
        (fst (fetch_protocol_data w coin ticker_map llama_protocol_map))
        (fst (get_and_process_lunarcrush_data w
           (upper (case ticker_map coin of None \<Rightarrow> [] | Some t \<Rightarrow> t)) coin))))"
  using assms by (simp add: fetch_and_cache_coin_history_def Let_def split_beta)

text \<open>
  Claim C7, amended (columns of the merged frame). On a cache miss with market data, the
  call returns a frame with these columns, in this order: \<open>date\<close>, \<open>coin_id\<close>,
  \<open>ticker\<close>, then \<open>open\<close>, \<open>high\<close> and \<open>low\<close> exactly when CoinGecko returned
  OHLC data, then \<open>close\<close>, \<open>volume\<close> and \<open>market_cap\<close>; then \<open>chain_tvl\<close> exactly
  when the chain source returned rows; then \<open>protocol_tvl\<close> and \<open>dex_volume\<close> exactly
  when one of the two protocol sources returned rows; then the social metrics the social
  source returned. When only one of the two protocol sources returned rows, the column
  of the other holds NaN in every row of the frame. The columns of a source that failed
  or returned nothing are left out, so the set of columns differs between assets.
\<close>

theorem merged_schema:
  assumes miss: "snd (cache_get (gcs w) c (cache_key_of coin)) = Returned None"
    and ok: "\<not> df_empty (process_market_data_to_df (fst (get_cg_market_data w coin)) coin ticker_map)"
  shows "\<exists>df. result_frame
             (fetch_and_cache_coin_history cd w coin ticker_map llama_protocol_map llama_chain_map c)
             = Some df \<and>
           columns df = merged_columns w coin ticker_map llama_protocol_map llama_chain_map \<and>
           (only_dex_returned w coin llama_protocol_map \<longrightarrow> all_nan ''protocol_tvl'' df) \<and>
           (only_tvl_returned w coin llama_protocol_map \<longrightarrow> all_nan ''dex_volume'' df)"
proof -
  let ?f = "process_market_data_to_df (fst (get_cg_market_data w coin)) coin ticker_map"
  let ?ch = "fst (fetch_chain_tvl w coin ticker_map llama_chain_map)"
  let ?p = "fst (fetch_protocol_data w coin ticker_map llama_protocol_map)"
  let ?ticker = "upper (case ticker_map coin of None \<Rightarrow> [] | Some t \<Rightarrow> t)"
  let ?l = "fst (get_and_process_lunarcrush_data w ?ticker coin)"
  obtain c1 where g: "cache_get (gcs w) c (cache_key_of coin) = (c1, Returned None)"
    using miss by (cases "cache_get (gcs w) c (cache_key_of coin)") simp
  have prim: "columns ?f = (if ohlc_returned (fst (get_cg_market_data w coin)) then final_cols else short_cols)"
    using columns_primary [of "fst (get_cg_market_data w coin)" coin ticker_map] ok
    by (auto simp: df_empty_def)
  then have sub: "set (columns ?f) \<subseteq> set final_cols"
    by (auto simp: final_cols_def short_cols_def split: if_splits)
  have wf: "\<forall>r\<in>set (rows ?f). length r = length (columns ?f)"
    by (rule rows_process_market_data_to_df)
  have prot: "\<not> df_empty ?p \<Longrightarrow>
      ''protocol_tvl'' \<in> set (columns ?p) \<and> ''dex_volume'' \<in> set (columns ?p)"
    using fetch_protocol_data_frame [of w coin ticker_map llama_protocol_map] by blast
  have lun: "\<not> df_empty ?l \<Longrightarrow>
      columns ?l = ''date'' # ''coin_id'' # social_columns w ?ticker \<and>
      set (social_columns w ?ticker) \<subseteq> set lc_metrics"
    using lunarcrush_frame [of w ?ticker coin] set_social_columns [of w ?ticker] by blast
  have soc: "(if df_empty ?l then [] else social_columns w ?ticker) = social_columns w ?ticker"
    using lunarcrush_frame [of w ?ticker coin] by simp
  have cm: "columns (merge_sources ?f ?ch ?p ?l)
      = columns ?f @ (if df_empty ?ch then [] else [''chain_tvl''])
          @ (if df_empty ?p then [] else [''protocol_tvl'', ''dex_volume''])
          @ (if df_empty ?l then [] else social_columns w ?ticker)"
    using sub prot lun by (rule columns_merge_sources)
  have ch: "df_empty ?ch \<longleftrightarrow> \<not> chain_returned w coin llama_chain_map"
    by (rule fetch_chain_tvl_empty)
  have pr: "df_empty ?p \<longleftrightarrow> \<not> protocol_returned w coin llama_protocol_map"
    using fetch_protocol_data_frame [of w coin ticker_map llama_protocol_map] by blast
  have cols: "columns (merge_sources ?f ?ch ?p ?l)
      = merged_columns w coin ticker_map llama_protocol_map llama_chain_map"
    unfolding cm soc ch pr prim merged_columns_def by simp
  have fill: "all_nan x (merge_sources ?f ?ch ?p ?l)"
    if one: "only_dex_returned w coin llama_protocol_map \<or> only_tvl_returned w coin llama_protocol_map"
      and x: "x = ''protocol_tvl'' \<or> x = ''dex_volume''"
      and nan: "\<forall>r\<in>set (rows ?p). get_cell (columns ?p) r x = NaN"
    for x
  proof -
    from only_one_returned [OF one] pr have ne: "\<not> df_empty ?p" by simp
    from prot [OF ne] have "''protocol_tvl'' \<in> set (columns ?p)" and "''dex_volume'' \<in> set (columns ?p)"
      by simp_all
    with sub wf ne show ?thesis
      using lun x nan by (rule all_nan_merge_sources)
  qed
  have tvl: "all_nan ''protocol_tvl'' (merge_sources ?f ?ch ?p ?l)"
    if "only_dex_returned w coin llama_protocol_map"
    using that fetch_protocol_data_filled [of w coin llama_protocol_map ticker_map]
    by (intro fill) simp_all
  have dex: "all_nan ''dex_volume'' (merge_sources ?f ?ch ?p ?l)"
    if "only_tvl_returned w coin llama_protocol_map"
    using that fetch_protocol_data_filled [of w coin llama_protocol_map ticker_map]
    by (intro fill) simp_all
  from cols tvl dex show ?thesis
    by (simp add: result_frame_def returned_on_primary_success [OF g ok])
qed

theorem merged_schema_witness:
  "result_frame (fetch_and_cache_coin_history python_codec dex_only_world ''bitcoin''
      btc_maps btc_maps btc_maps no_history_cache)
     = Some \<lparr>columns = final_cols @ [''protocol_tvl'', ''dex_volume''],
             rows = [[Time (2022, 1, 1) 0, Str ''bitcoin'', Str ''btc'', Num 9, Num 12, Num 8,
                      Num 10, Num 500, Num 9000, NaN, NaN],
                     [Time (2022, 1, 2) 0, Str ''bitcoin'', Str ''btc'', NaN, NaN, NaN,
                      Num 11, NaN, Num 9900, NaN, Num 40]]\<rparr> \<and>
   all_nan ''protocol_tvl'' \<lparr>columns = final_cols @ [''protocol_tvl'', ''dex_volume''],
             rows = [[Time (2022, 1, 1) 0, Str ''bitcoin'', Str ''btc'', Num 9, Num 12, Num 8,
                      Num 10, Num 500, Num 9000, NaN, NaN],
                     [Time (2022, 1, 2) 0, Str ''bitcoin'', Str ''btc'', NaN, NaN, NaN,
                      Num 11, NaN, Num 9900, NaN, Num 40]]\<rparr>"
proof -
  have miss: "snd (cache_get (gcs dex_only_world) no_history_cache (cache_key_of ''bitcoin''))
      = Returned None"
    by (simp add: cache_get_def no_history_cache_def dex_only_world_def Let_def)
  have ok: "\<not> df_empty (process_market_data_to_df (fst (get_cg_market_data dex_only_world ''bitcoin''))
      ''bitcoin'' btc_maps)"
    by code_simp
  have one: "only_dex_returned dex_only_world ''bitcoin'' btc_maps"
    by code_simp
  have v: "result_frame (fetch_and_cache_coin_history python_codec dex_only_world ''bitcoin''
      btc_maps btc_maps btc_maps no_history_cache)
     = Some \<lparr>columns = final_cols @ [''protocol_tvl'', ''dex_volume''],
             rows = [[Time (2022, 1, 1) 0, Str ''bitcoin'', Str ''btc'', Num 9, Num 12, Num 8,
                      Num 10, Num 500, Num 9000, NaN, NaN],
                     [Time (2022, 1, 2) 0, Str ''bitcoin'', Str ''btc'', NaN, NaN, NaN,
                      Num 11, NaN, Num 9900, NaN, Num 40]]\<rparr>"
    by code_simp
  from merged_schema [OF miss ok, of python_codec btc_maps btc_maps] one v show ?thesis
    by auto
qed

text \<open>
  Claim C7 as stated fails: in one world the merged frame of a coin with chain and social
  data has the columns \<open>chain_tvl\<close> and \<open>lc_sentiment\<close>, that of a coin known to no
  secondary source has neither, filled or not.
\<close>

theorem merged_schema_counterexample:
  "map_option columns (result_frame (fetch_and_cache_coin_history python_codec calm_world ''bitcoin''
      btc_maps btc_maps btc_maps no_history_cache))
     = Some [''date'', ''coin_id'', ''ticker'', ''close'', ''volume'', ''market_cap'', ''chain_tvl'',
             ''lc_sentiment''] \<and>
   map_option columns (result_frame (fetch_and_cache_coin_history python_codec calm_world ''dogecoin''
      btc_maps btc_maps btc_maps no_history_cache))
     = Some [''date'', ''coin_id'', ''ticker'', ''close'', ''volume'', ''market_cap'']"
  by code_simp

end
